theory Spec2Isabelle
  imports Main "HOL-Library.Sublist" "HOL-Library.AList"
begin

section \<open>JavaScript strings\<close>

text \<open>
  A JavaScript string is a sequence of UTF-16 code units. Every code unit is kept as a
  natural number below 65536; the Chinese literals of \<^verbatim>\<open>server.js\<close> are written as
  their code units, the ASCII ones through \<open>ascii\<close>.
\<close>

type_synonym jsstring = "nat list"

definition ascii :: "string \<Rightarrow> jsstring" where
  "ascii s = map of_char s"

text \<open>
  The characters \<^verbatim>\<open>String.prototype.trim\<close> strips and the class \<^verbatim>\<open>\s\<close> matches:
  ECMAScript WhiteSpace and LineTerminator.
\<close>

definition isWhiteSpace :: "nat \<Rightarrow> bool" where
  "isWhiteSpace c \<longleftrightarrow>
     c = 0x09 \<or> c = 0x0A \<or> c = 0x0B \<or> c = 0x0C \<or> c = 0x0D \<or> c = 0x20 \<or> c = 0xA0
     \<or> c = 0x1680 \<or> (0x2000 \<le> c \<and> c \<le> 0x200A) \<or> c = 0x2028 \<or> c = 0x2029
     \<or> c = 0x202F \<or> c = 0x205F \<or> c = 0x3000 \<or> c = 0xFEFF"

definition trim :: "jsstring \<Rightarrow> jsstring" where
  "trim s = rev (dropWhile isWhiteSpace (rev (dropWhile isWhiteSpace s)))"

text \<open>
  A string-valued property of a JSON record that may be missing: \<open>None\<close> stands for
  \<^verbatim>\<open>undefined\<close> and \<^verbatim>\<open>null\<close>.
  \<open>orEmpty v\<close> is \<^verbatim>\<open>String(v ?? '')\<close> and, both being falsy, also \<^verbatim>\<open>String(v || '')\<close>.
\<close>

definition orEmpty :: "jsstring option \<Rightarrow> jsstring" where
  "orEmpty v = (case v of None \<Rightarrow> [] | Some s \<Rightarrow> s)"

text \<open>\<^verbatim>\<open>a || b\<close> on strings: the empty string is falsy.\<close>

definition orElse :: "jsstring \<Rightarrow> jsstring \<Rightarrow> jsstring" where
  "orElse a b = (if a = [] then b else a)"

section \<open>escapeHtml\<close>

text \<open>\<^verbatim>\<open>s.replace(/c/g, r)\<close> for a single character \<open>c\<close>.\<close>

definition replaceAllChar :: "nat \<Rightarrow> jsstring \<Rightarrow> jsstring \<Rightarrow> jsstring" where
  "replaceAllChar c r s = concat (map (\<lambda>x. if x = c then r else [x]) s)"

definition escapeHtml :: "jsstring option \<Rightarrow> jsstring" where
  \<open>escapeHtml v =
     replaceAllChar (of_char CHR 0x27) (ascii ''&#39;'')
       (replaceAllChar (of_char CHR ''"'') (ascii ''&quot;'')
         (replaceAllChar (of_char CHR ''>'') (ascii ''&gt;'')
           (replaceAllChar (of_char CHR ''<'') (ascii ''&lt;'')
             (replaceAllChar (of_char CHR ''&'') (ascii ''&amp;'') (orEmpty v)))))\<close>

section \<open>The memory tier: a map with expiry\<close>

record 'v cache_entry =
  entry_value :: 'v
  expiresAt :: int

type_synonym ('k, 'v) cache = "'k \<rightharpoonup> 'v cache_entry"

definition PLACES_CACHE_TTL_MS :: int where
  "PLACES_CACHE_TTL_MS = 7 * 24 * 60 * 60 * 1000"

text \<open>
  \<open>now\<close> is what \<^verbatim>\<open>Date.now()\<close> returns, in milliseconds. The result is the returned
  value (\<open>None\<close> for \<^verbatim>\<open>null\<close>) and the map after the call.
\<close>

definition getCachedValue ::
  "('k, 'v) cache \<Rightarrow> 'k \<Rightarrow> int \<Rightarrow> 'v option \<times> ('k, 'v) cache" where
  "getCachedValue cache key now =
     (case cache key of
        None \<Rightarrow> (None, cache)
      | Some entry \<Rightarrow>
          if expiresAt entry > now then (Some (entry_value entry), cache)
          else (None, cache(key := None)))"

definition setCachedValue ::
  "('k, 'v) cache \<Rightarrow> 'k \<Rightarrow> 'v \<Rightarrow> int \<Rightarrow> ('k, 'v) cache" where
  "setCachedValue cache key v now =
     cache(key \<mapsto> \<lparr>entry_value = v, expiresAt = now + PLACES_CACHE_TTL_MS\<rparr>)"

section \<open>Company records\<close>

text \<open>
  One element of \<^verbatim>\<open>data/companies.json\<close>. The text properties are strings or missing
  (\<open>None\<close>: the key is absent, \<^verbatim>\<open>undefined\<close>); the code reads them only through
  \<^verbatim>\<open>x || ''\<close>, \<^verbatim>\<open>x ?? ''\<close> and \<^verbatim>\<open>String(x)\<close>.
  \<open>lat\<close> and \<open>lng\<close> hold the text \<^verbatim>\<open>`${Number(company.lat)}`\<close> when that number is finite and
  \<open>None\<close> otherwise: the code uses the coordinates in no other way.
\<close>

record company =
  slug :: "jsstring option"
  name :: "jsstring option"
  summary :: "jsstring option"
  city :: "jsstring option"
  industry :: "jsstring option"
  category :: "jsstring option"
  placeId :: "jsstring option"
  place_id :: "jsstring option"
  contact :: "jsstring option"
  cover :: "jsstring option"
  mapQuery :: "jsstring option"
  lat :: "jsstring option"
  lng :: "jsstring option"

section \<open>The regular expressions of the classifiers\<close>

text \<open>
  The patterns are alternatives of literal words, one of them with \<^verbatim>\<open>\s*\<close> inside, all
  under the flag \<^verbatim>\<open>i\<close>. \<open>Chr p\<close> is the pattern character \<open>p\<close>; \<open>WhiteSpaces\<close> is
  \<^verbatim>\<open>\s*\<close>.
\<close>

datatype regex = Eps | Chr nat | WhiteSpaces | Seq regex regex | Alt regex regex

definition isAsciiLower :: "nat \<Rightarrow> bool" where
  "isAsciiLower c \<longleftrightarrow> 0x61 \<le> c \<and> c \<le> 0x7A"

text \<open>
  Matching one pattern character under \<^verbatim>\<open>/i\<close>. The patterns are written in lower case.
  A lower-case ASCII letter matches itself and its upper-case form; no character outside
  ASCII canonicalizes to an ASCII letter. The other pattern characters (CJK ideographs)
  have no case and match themselves only.
\<close>

definition ciEq :: "nat \<Rightarrow> nat \<Rightarrow> bool" where
  "ciEq p c \<longleftrightarrow> c = p \<or> (isAsciiLower p \<and> c + 0x20 = p)"

text \<open>
  \<open>matchPrefix r s\<close>: what is left of \<open>s\<close> after each way of matching \<open>r\<close> at its start
  (the backtracking matcher's choices, the longest run of white space first).
\<close>

fun matchPrefix :: "regex \<Rightarrow> jsstring \<Rightarrow> jsstring list" where
  "matchPrefix Eps s = [s]"
| "matchPrefix (Chr p) s = (case s of [] \<Rightarrow> [] | c # cs \<Rightarrow> if ciEq p c then [cs] else [])"
| "matchPrefix WhiteSpaces s =
     map (\<lambda>k. drop k s) (rev [0..<Suc (length (takeWhile isWhiteSpace s))])"
| "matchPrefix (Seq a b) s = concat (map (matchPrefix b) (matchPrefix a s))"
| "matchPrefix (Alt a b) s = matchPrefix a s @ matchPrefix b s"

text \<open>\<^verbatim>\<open>re.test(s)\<close> without the flag \<^verbatim>\<open>g\<close>: a match starting at some position.\<close>

definition regexTest :: "regex \<Rightarrow> jsstring \<Rightarrow> bool" where
  "regexTest r s = list_ex (\<lambda>t. matchPrefix r t \<noteq> []) (rev (suffixes s))"

definition lit :: "jsstring \<Rightarrow> regex" where
  "lit w = foldr (\<lambda>c r. Seq (Chr c) r) w Eps"

fun alts :: "regex list \<Rightarrow> regex" where
  "alts [] = Alt Eps Eps"
| "alts [r] = r"
| "alts (r # rs) = Alt r (alts rs)"

text \<open>What a pattern stands for: the set of the strings it matches in full.\<close>

fun lang :: "regex \<Rightarrow> jsstring set" where
  "lang Eps = {[]}"
| "lang (Chr p) = {[c] | c. ciEq p c}"
| "lang WhiteSpaces = {ws. list_all isWhiteSpace ws}"
| "lang (Seq a b) = {u @ v | u v. u \<in> lang a \<and> v \<in> lang b}"
| "lang (Alt a b) = lang a \<union> lang b"

subsection \<open>The words\<close>

text \<open>Category names: Chinese food, hot pot, noodle shop, barbecue, drinks, supermarket.\<close>

definition cat_zhongcan :: jsstring where "cat_zhongcan = [0x4E2D, 0x9910]"
definition cat_huoguo :: jsstring where "cat_huoguo = [0x706B, 0x9505]"
definition cat_mianguan :: jsstring where "cat_mianguan = [0x9762, 0x9986]"
definition cat_shaokao :: jsstring where "cat_shaokao = [0x70E7, 0x70E4]"
definition cat_yinpin :: jsstring where "cat_yinpin = [0x996E, 0x54C1]"
definition cat_chaoshi :: jsstring where "cat_chaoshi = [0x8D85, 0x5E02]"

text \<open>The food industry, U+9910 U+996E U+4E0E U+670D U+52A1 (catering and services).\<close>

definition foodIndustry :: jsstring where
  "foodIndustry = [0x9910, 0x996E, 0x4E0E, 0x670D, 0x52A1]"

definition foodCategoryPriority :: "jsstring list" where
  "foodCategoryPriority =
     [cat_zhongcan, cat_huoguo, cat_mianguan, cat_shaokao, cat_yinpin, cat_chaoshi]"

text \<open>
  \<^verbatim>\<open>/<huoguo>|hot\s*pot|hotpot|<malatang>|<chuanchuanxiang>/i\<close>
\<close>

definition hotpotRe :: regex where
  "hotpotRe = alts
     [lit [0x706B, 0x9505],
      Seq (lit (ascii ''hot'')) (Seq WhiteSpaces (lit (ascii ''pot''))),
      lit (ascii ''hotpot''),
      lit [0x9EBB, 0x8FA3, 0x70EB],
      lit [0x4E32, 0x4E32, 0x9999]]"

text \<open>
  \<^verbatim>\<open>/<mianguan>|<lamian>|ramen|noodle|noodles|<niuroumian>|<lanzhou>|<daoxiaomian>|<mixian>/i\<close>
\<close>

definition noodleRe :: regex where
  "noodleRe = alts
     [lit [0x9762, 0x9986],
      lit [0x62C9, 0x9762],
      lit (ascii ''ramen''),
      lit (ascii ''noodle''),
      lit (ascii ''noodles''),
      lit [0x725B, 0x8089, 0x9762],
      lit [0x5170, 0x5DDE],
      lit [0x5200, 0x524A, 0x9762],
      lit [0x7C73, 0x7EBF]]"

text \<open>\<^verbatim>\<open>/<shaokao>|<chuanchuan>|<kaorou>|bbq|barbecue|<kaoyu>/i\<close>\<close>

definition bbqRe :: regex where
  "bbqRe = alts
     [lit [0x70E7, 0x70E4],
      lit [0x4E32, 0x4E32],
      lit [0x70E4, 0x8089],
      lit (ascii ''bbq''),
      lit (ascii ''barbecue''),
      lit [0x70E4, 0x9C7C]]"

text \<open>\<^verbatim>\<open>/<cha>|<naicha>|<yinpin>|<kafei>|coffee|bubble\s*tea/i\<close>, in the directory classifier only.\<close>

definition drinksRe :: regex where
  "drinksRe = alts
     [lit [0x8336],
      lit [0x5976, 0x8336],
      lit [0x996E, 0x54C1],
      lit [0x5496, 0x5561],
      lit (ascii ''coffee''),
      Seq (lit (ascii ''bubble'')) (Seq WhiteSpaces (lit (ascii ''tea'')))]"

text \<open>\<^verbatim>\<open>/<chaoshi>|<bianli>|market|grocery/i\<close>, in the directory classifier only.\<close>

definition marketRe :: regex where
  "marketRe = alts
     [lit [0x8D85, 0x5E02],
      lit [0x4FBF, 0x5229],
      lit (ascii ''market''),
      lit (ascii ''grocery'')]"

section \<open>The two food classifiers\<close>

text \<open>
  \<^verbatim>\<open>String.prototype.toLowerCase\<close> follows the Unicode case mapping, which is not
  written out here: both classifiers take it as the argument \<open>lc\<close>. \<open>asciiLower\<close> is that
  function on the strings whose only cased characters are ASCII letters.
\<close>

definition asciiLower :: "jsstring \<Rightarrow> jsstring" where
  "asciiLower s = map (\<lambda>c. if 0x41 \<le> c \<and> c \<le> 0x5A then c + 0x20 else c) s"

text \<open>The text the patterns run on: \<^verbatim>\<open>`${company.name || ''} ${company.summary || ''}`.toLowerCase()\<close>.\<close>

definition classifierText :: "(jsstring \<Rightarrow> jsstring) \<Rightarrow> company \<Rightarrow> jsstring" where
  "classifierText lc company = lc (orEmpty (name company) @ ascii '' '' @ orEmpty (summary company))"

text \<open>\<open>classifyFoodCategory\<close>, the closure inside \<open>buildCompaniesHtml\<close>.\<close>

definition classifyFoodCategory :: "(jsstring \<Rightarrow> jsstring) \<Rightarrow> company \<Rightarrow> jsstring" where
  "classifyFoodCategory lc company =
     (let existing = trim (orEmpty (category company)) in
      if existing \<noteq> [] then existing
      else let text = classifierText lc company in
        if regexTest hotpotRe text then cat_huoguo
        else if regexTest noodleRe text then cat_mianguan
        else if regexTest bbqRe text then cat_shaokao
        else cat_zhongcan)"

text \<open>\<open>classifyFoodCategoryForDirectory\<close>, at module level, used by \<open>buildDirectoryDataScript\<close>.\<close>

definition classifyFoodCategoryForDirectory :: "(jsstring \<Rightarrow> jsstring) \<Rightarrow> company \<Rightarrow> jsstring" where
  "classifyFoodCategoryForDirectory lc company =
     (let existing = trim (orEmpty (category company)) in
      if existing \<noteq> [] then existing
      else let text = classifierText lc company in
        if regexTest hotpotRe text then cat_huoguo
        else if regexTest noodleRe text then cat_mianguan
        else if regexTest bbqRe text then cat_shaokao
        else if regexTest drinksRe text then cat_yinpin
        else if regexTest marketRe text then cat_chaoshi
        else cat_zhongcan)"

subsection \<open>The claim's description of the classifier\<close>

text \<open>
  The words a pattern stands for, as sets of strings: a keyword in any mix of cases,
  \<open>hot\<close> and \<open>pot\<close> with any run of white space between them.
\<close>

definition keywordForms :: "jsstring \<Rightarrow> jsstring set" where
  "keywordForms kw = {w. list_all2 ciEq kw w}"

definition spacedForms :: "jsstring \<Rightarrow> jsstring \<Rightarrow> jsstring set" where
  "spacedForms a b =
     {u @ ws @ v | u ws v. u \<in> keywordForms a \<and> list_all isWhiteSpace ws \<and> v \<in> keywordForms b}"

definition hotpotKeywords :: "jsstring set" where
  "hotpotKeywords =
     keywordForms [0x706B, 0x9505] \<union> spacedForms (ascii ''hot'') (ascii ''pot'')
     \<union> keywordForms (ascii ''hotpot'') \<union> keywordForms [0x9EBB, 0x8FA3, 0x70EB]
     \<union> keywordForms [0x4E32, 0x4E32, 0x9999]"

definition noodleKeywords :: "jsstring set" where
  "noodleKeywords =
     keywordForms [0x9762, 0x9986] \<union> keywordForms [0x62C9, 0x9762]
     \<union> keywordForms (ascii ''ramen'') \<union> keywordForms (ascii ''noodle'')
     \<union> keywordForms (ascii ''noodles'') \<union> keywordForms [0x725B, 0x8089, 0x9762]
     \<union> keywordForms [0x5170, 0x5DDE] \<union> keywordForms [0x5200, 0x524A, 0x9762]
     \<union> keywordForms [0x7C73, 0x7EBF]"

definition bbqKeywords :: "jsstring set" where
  "bbqKeywords =
     keywordForms [0x70E7, 0x70E4] \<union> keywordForms [0x4E32, 0x4E32]
     \<union> keywordForms [0x70E4, 0x8089] \<union> keywordForms (ascii ''bbq'')
     \<union> keywordForms (ascii ''barbecue'') \<union> keywordForms [0x70E4, 0x9C7C]"

text \<open>A text mentions a set of words when one of them occurs in it.\<close>

definition mentions :: "jsstring set \<Rightarrow> jsstring \<Rightarrow> bool" where
  "mentions K text \<longleftrightarrow> (\<exists>pre w post. text = pre @ w @ post \<and> w \<in> K)"

definition classifyFoodCategory_spec :: "(jsstring \<Rightarrow> jsstring) \<Rightarrow> company \<Rightarrow> jsstring" where
  "classifyFoodCategory_spec lc company =
     (if trim (orEmpty (category company)) \<noteq> [] then trim (orEmpty (category company))
      else if mentions hotpotKeywords (lc (orEmpty (name company) @ [0x20] @ orEmpty (summary company)))
        then cat_huoguo
      else if mentions noodleKeywords (lc (orEmpty (name company) @ [0x20] @ orEmpty (summary company)))
        then cat_mianguan
      else if mentions bbqKeywords (lc (orEmpty (name company) @ [0x20] @ orEmpty (summary company)))
        then cat_shaokao
      else cat_zhongcan)"

section \<open>JSON values and what reading them can throw\<close>

text \<open>
  A parsed JSON value. \<open>JNum\<close> holds the text \<^verbatim>\<open>String(n)\<close> of the number, which is
  \<^verbatim>\<open>"0"\<close> for zero; \<open>JObj\<close> holds the object's own properties, each key once.
  A JavaScript value read out of a payload is a \<open>json option\<close>: \<open>None\<close> is
  \<^verbatim>\<open>undefined\<close>. The names the code reads from a payload (\<^verbatim>\<open>status\<close>,
  \<^verbatim>\<open>candidates\<close>, \<^verbatim>\<open>result\<close>, \<^verbatim>\<open>local_results\<close>, \<^verbatim>\<open>place_results\<close>,
  \<^verbatim>\<open>place_result\<close>, \<^verbatim>\<open>place_id\<close>, \<^verbatim>\<open>name\<close>) are not members of the
  prototypes of parsed values, so \<open>getProp\<close> looks at own properties only.
\<close>

datatype json =
  JNull | JBool bool | JNum jsstring | JStr jsstring | JArr "json list"
  | JObj "(jsstring \<times> json) list"

datatype jserror = TypeError | URIError | FetchFailed | SyntaxError | HttpStatus | MissingKey

fun truthy :: "json option \<Rightarrow> bool" where
  "truthy None = False"
| "truthy (Some JNull) = False"
| "truthy (Some (JBool b)) = b"
| "truthy (Some (JNum n)) = (n \<noteq> [0x30])"
| "truthy (Some (JStr s)) = (s \<noteq> [])"
| "truthy (Some (JArr xs)) = True"
| "truthy (Some (JObj kvs)) = True"

text \<open>\<^verbatim>\<open>a || b\<close> on values.\<close>

definition orValue :: "json option \<Rightarrow> json option \<Rightarrow> json option" where
  "orValue a b = (if truthy a then a else b)"

text \<open>\<^verbatim>\<open>x.p\<close>: a TypeError on \<^verbatim>\<open>null\<close> and \<^verbatim>\<open>undefined\<close>.\<close>

fun getProp :: "json option \<Rightarrow> jsstring \<Rightarrow> jserror + json option" where
  "getProp None p = Inl TypeError"
| "getProp (Some JNull) p = Inl TypeError"
| "getProp (Some (JObj kvs)) p = Inr (map_of kvs p)"
| "getProp (Some v) p = Inr None"

text \<open>\<^verbatim>\<open>x?.p\<close>.\<close>

definition getPropOpt :: "json option \<Rightarrow> jsstring \<Rightarrow> json option" where
  "getPropOpt x p = (case getProp x p of Inl e \<Rightarrow> None | Inr v \<Rightarrow> v)"

text \<open>\<^verbatim>\<open>xs[0]\<close> of an array.\<close>

definition first :: "json list \<Rightarrow> json option" where
  "first xs = (case xs of [] \<Rightarrow> None | x # rest \<Rightarrow> Some x)"

text \<open>\<^verbatim>\<open>Array.isArray(v) ? v : []\<close>.\<close>

definition arrayOrEmpty :: "json option \<Rightarrow> json list" where
  "arrayOrEmpty v = (case v of Some (JArr xs) \<Rightarrow> xs | _ \<Rightarrow> [])"

definition joinWith :: "jsstring \<Rightarrow> jsstring list \<Rightarrow> jsstring" where
  "joinWith sep xs = (case xs of [] \<Rightarrow> [] | x # rest \<Rightarrow> x @ concat (map (\<lambda>y. sep @ y) rest))"

text \<open>
  \<^verbatim>\<open>String(v)\<close>. An object is converted by its \<^verbatim>\<open>toString\<close> method. The inherited one
  gives \<^verbatim>\<open>[object Object]\<close>. An own property of that name is a parsed value, which is
  not callable; \<^verbatim>\<open>valueOf\<close>, own or inherited, gives no primitive either, and the
  conversion throws a TypeError. An array joins the texts of its elements with commas,
  a null element as the empty text.
\<close>

fun jsonToString :: "json \<Rightarrow> jserror + jsstring"
  and elementTexts :: "json list \<Rightarrow> jserror + jsstring list" where
  "jsonToString JNull = Inr (ascii ''null'')"
| "jsonToString (JBool b) = Inr (if b then ascii ''true'' else ascii ''false'')"
| "jsonToString (JNum n) = Inr n"
| "jsonToString (JStr s) = Inr s"
| "jsonToString (JArr xs) =
     (case elementTexts xs of
        Inl err \<Rightarrow> Inl err
      | Inr parts \<Rightarrow> Inr (joinWith (ascii '','') parts))"
| "jsonToString (JObj kvs) =
     (if map_of kvs (ascii ''toString'') = None then Inr (ascii ''[object Object]'')
      else Inl TypeError)"
| "elementTexts [] = Inr []"
| "elementTexts (x # rest) =
     (case (if x = JNull then Inr [] else jsonToString x) of
        Inl err \<Rightarrow> Inl err
      | Inr t \<Rightarrow>
          (case elementTexts rest of
             Inl err \<Rightarrow> Inl err
           | Inr ts \<Rightarrow> Inr (t # ts)))"

definition toStr :: "json option \<Rightarrow> jserror + jsstring" where
  "toStr v = (case v of None \<Rightarrow> Inr (ascii ''undefined'') | Some x \<Rightarrow> jsonToString x)"

text \<open>Sequencing of steps that may throw: the first exception ends the block.\<close>

definition bindE :: "jserror + 'a \<Rightarrow> ('a \<Rightarrow> jserror + 'b) \<Rightarrow> jserror + 'b" where
  "bindE m f = (case m of Inl e \<Rightarrow> Inl e | Inr v \<Rightarrow> f v)"

section \<open>The places provider\<close>

text \<open>
  A value held in the place caches or returned by the fetch functions: a JSON value, or
  a member of \<^verbatim>\<open>Object.prototype\<close> reached by its name, since \<^verbatim>\<open>diskCache[placeId]\<close>
  looks through the prototype chain. Such a member is a function, and for
  \<^verbatim>\<open>__proto__\<close> the prototype object itself: it is truthy and it is not JSON.
\<close>

datatype jsvalue = Json json | Inherited jsstring

definition truthyValue :: "jsvalue option \<Rightarrow> bool" where
  "truthyValue v =
     (case v of
        None \<Rightarrow> False
      | Some (Json j) \<Rightarrow> truthy (Some j)
      | Some (Inherited n) \<Rightarrow> True)"

definition objectPrototypeNames :: "jsstring list" where
  "objectPrototypeNames =
     map ascii
       [''constructor'', ''__proto__'', ''hasOwnProperty'', ''isPrototypeOf'',
        ''propertyIsEnumerable'', ''toLocaleString'', ''toString'', ''valueOf'',
        ''__defineGetter__'', ''__defineSetter__'', ''__lookupGetter__'',
        ''__lookupSetter__'']"

text \<open>
  \<^verbatim>\<open>item?.name\<close> of such a value. A function has its name for \<^verbatim>\<open>name\<close>;
  \<^verbatim>\<open>constructor\<close> is the function \<^verbatim>\<open>Object\<close>; the prototype object has none.
\<close>

definition nameOf :: "jsvalue \<Rightarrow> json option" where
  "nameOf item =
     (case item of
        Json j \<Rightarrow> getPropOpt (Some j) (ascii ''name'')
      | Inherited n \<Rightarrow>
          if n = ascii ''__proto__'' then None
          else if n = ascii ''constructor'' then Some (JStr (ascii ''Object''))
          else Some (JStr n))"

text \<open>
  The value of the module variable \<^verbatim>\<open>placeDetailsDiskCache\<close>: null (its first value,
  and what a file holding \<^verbatim>\<open>null\<close> parses to); an object, with its own properties in
  the order they were created; or another parsed value (an array, a string, a number, a
  boolean) with the assignments \<^verbatim>\<open>diskCache[key] = x\<close> made to it since, oldest first.
\<close>

datatype diskTier =
  DiskNull
  | DiskObject "(jsstring \<times> jsvalue) list"
  | DiskOther json "(jsstring \<times> jsvalue) list"

text \<open>
  The configuration read from the process environment at start, and the parts of the
  outside world the places code reads: the parse of \<^verbatim>\<open>data/place-details.json\<close> (\<open>None\<close>
  when the file is missing or is not JSON) and whether a file of the photo directory
  exists.

  \<open>mapSerpFields\<close> stands for the field by field normalisation inside
  \<open>mapSerpPlaceResult\<close> (numbers parsed, opening hours and photos reshaped), which is not
  written out: from a provider result and the fallback id it builds the properties of a
  new object, or throws, as \<^verbatim>\<open>String(place.place_id)\<close> does on some objects.

  \<open>otherGet\<close>, \<open>otherSet\<close> and \<open>otherValues\<close> stand for the engine's answers when the disk
  tier is an array or a primitive \<open>v\<close> with the assignments made so far:
  \<^verbatim>\<open>v[key]\<close>, the exception thrown by \<^verbatim>\<open>v[key] = x\<close> if there is one, and
  \<^verbatim>\<open>Object.values(v)\<close>. They depend on indices, lengths and the members of
  \<^verbatim>\<open>Array.prototype\<close>, \<^verbatim>\<open>String.prototype\<close> and the like, which are not written out.
\<close>

record env =
  PLACES_API_ENABLED :: bool
  PLACES_PROVIDER :: jsstring
  GOOGLE_PLACES_API_KEY :: jsstring
  SERPAPI_KEY :: jsstring
  SEARCHAPI_KEY :: jsstring
  diskFile :: "json option"
  existsSync :: "jsstring \<Rightarrow> bool"
  toLowerCase :: "jsstring \<Rightarrow> jsstring"
  mapSerpFields :: "json \<Rightarrow> jsstring \<Rightarrow> jserror + (jsstring \<times> json) list"
  otherGet :: "json \<Rightarrow> (jsstring \<times> jsvalue) list \<Rightarrow> jsstring \<Rightarrow> jsvalue option"
  otherSet :: "json \<Rightarrow> (jsstring \<times> jsvalue) list \<Rightarrow> jsstring \<Rightarrow> jsvalue \<Rightarrow> jserror option"
  otherValues :: "json \<Rightarrow> (jsstring \<times> jsvalue) list \<Rightarrow> jsvalue list"

definition isPlacesApiEnabled :: "env \<Rightarrow> bool" where
  "isPlacesApiEnabled e =
     (if \<not> PLACES_API_ENABLED e then False
      else if PLACES_PROVIDER e = ascii ''serpapi'' then SERPAPI_KEY e \<noteq> []
      else if PLACES_PROVIDER e = ascii ''searchapi'' then SEARCHAPI_KEY e \<noteq> []
      else GOOGLE_PLACES_API_KEY e \<noteq> [])"

text \<open>
  What one outgoing request meets: the connection fails, the body is not JSON, or a
  response arrives with its \<^verbatim>\<open>ok\<close> flag and parsed body.
\<close>

datatype http_reply = NetworkError | BodyNotJson | Response bool json

definition fetchJson :: "http_reply \<Rightarrow> jserror + json" where
  "fetchJson r =
     (case r of
        NetworkError \<Rightarrow> Inl FetchFailed
      | BodyNotJson \<Rightarrow> Inl SyntaxError
      | Response ok data \<Rightarrow> if \<not> ok then Inl HttpStatus else Inr data)"

definition fetchSerpApiJson :: "env \<Rightarrow> http_reply \<Rightarrow> jserror + json" where
  "fetchSerpApiJson e r =
     (let apiKey = (if PLACES_PROVIDER e = ascii ''searchapi'' then SEARCHAPI_KEY e
                    else SERPAPI_KEY e)
      in if apiKey = [] then Inl MissingKey else fetchJson r)"

text \<open>The three module-level stores.\<close>

record places_state =
  placesCache :: "(jsstring, jsvalue) cache"
  placeIdCache :: "(jsstring, jsstring) cache"
  placeDetailsDiskCache :: diskTier

text \<open>
  What one call sees of the world: the clock when it starts, the reply to the request it
  may send, and the clock when that reply has arrived.
\<close>

record world =
  startTime :: int
  reply :: http_reply
  replyTime :: int

text \<open>\<^verbatim>\<open>if (placeDetailsDiskCache)\<close>.\<close>

definition tierTruthy :: "diskTier \<Rightarrow> bool" where
  "tierTruthy d =
     (case d of
        DiskNull \<Rightarrow> False
      | DiskObject kvs \<Rightarrow> True
      | DiskOther v assigned \<Rightarrow> truthy (Some v))"

text \<open>What \<^verbatim>\<open>JSON.parse\<close> hands to the module variable.\<close>

definition parsedTier :: "json \<Rightarrow> diskTier" where
  "parsedTier v =
     (case v of
        JNull \<Rightarrow> DiskNull
      | JObj kvs \<Rightarrow> DiskObject (map (\<lambda>(k, x). (k, Json x)) kvs)
      | _ \<Rightarrow> DiskOther v [])"

definition loadPlaceDetailsDiskCache :: "env \<Rightarrow> places_state \<Rightarrow> diskTier \<times> places_state" where
  "loadPlaceDetailsDiskCache e st =
     (if tierTruthy (placeDetailsDiskCache st) then (placeDetailsDiskCache st, st)
      else
        let d = (case diskFile e of Some parsed \<Rightarrow> parsedTier parsed | None \<Rightarrow> DiskObject [])
        in (d, st\<lparr>placeDetailsDiskCache := d\<rparr>))"

text \<open>
  \<open>savePlaceDetailsDiskCache\<close> writes the resident disk tier to its file and swallows a
  failed write. A truthy resident value is never read from the file again, and a falsy
  one is never written, so the state keeps no copy of the file.
\<close>

text \<open>
  \<^verbatim>\<open>diskCache[key]\<close>, read: a TypeError on null; on an object the own property, and
  else the member of \<^verbatim>\<open>Object.prototype\<close> of that name, if there is one.
\<close>

definition readMember :: "env \<Rightarrow> diskTier \<Rightarrow> jsstring \<Rightarrow> jserror + jsvalue option" where
  "readMember e d key =
     (case d of
        DiskNull \<Rightarrow> Inl TypeError
      | DiskObject kvs \<Rightarrow>
          Inr (case map_of kvs key of
                 Some x \<Rightarrow> Some x
               | None \<Rightarrow> if key \<in> set objectPrototypeNames then Some (Inherited key) else None)
      | DiskOther v assigned \<Rightarrow> Inr (otherGet e v assigned key))"

text \<open>
  \<^verbatim>\<open>diskCache[key] = x\<close>, where \<open>diskCache\<close> is what the variable refers to at the time
  of the write. A TypeError on null. On an object the own property is updated or
  created; under the name \<^verbatim>\<open>__proto__\<close> with no own property of that name, the write
  goes to the inherited setter and no own property is created (the code gets there
  only with the prototype object itself as \<open>x\<close>, which the setter puts back). A falsy
  primitive is not the resident value of the next load, so nothing is recorded for it.
\<close>

definition assignMember ::
  "env \<Rightarrow> places_state \<Rightarrow> diskTier \<Rightarrow> jsstring \<Rightarrow> jsvalue \<Rightarrow> jserror + places_state" where
  "assignMember e st diskCache key x =
     (case diskCache of
        DiskNull \<Rightarrow> Inl TypeError
      | DiskObject kvs \<Rightarrow>
          Inr (st\<lparr>placeDetailsDiskCache :=
                     DiskObject (if key = ascii ''__proto__'' \<and> map_of kvs key = None then kvs
                                 else AList.update key x kvs)\<rparr>)
      | DiskOther v assigned \<Rightarrow>
          (case otherSet e v assigned key x of
             Some err \<Rightarrow> Inl err
           | None \<Rightarrow>
               Inr (if truthy (Some v)
                    then st\<lparr>placeDetailsDiskCache := DiskOther v (assigned @ [(key, x)])\<rparr>
                    else st)))"

text \<open>
  \<^verbatim>\<open>Object.values(diskCache || {})\<close>. The own properties of an object are listed with
  the array indices first, in ascending order, and the other names after them in the
  order they were created.
\<close>

definition indexValue :: "jsstring \<Rightarrow> nat" where
  "indexValue k = foldl (\<lambda>n c. 10 * n + (c - 0x30)) 0 k"

definition isArrayIndex :: "jsstring \<Rightarrow> bool" where
  "isArrayIndex k =
     (k \<noteq> [] \<and> list_all (\<lambda>c. 0x30 \<le> c \<and> c \<le> 0x39) k \<and> (hd k \<noteq> 0x30 \<or> k = [0x30])
      \<and> indexValue k < 4294967295)"

definition objectValues :: "(jsstring \<times> jsvalue) list \<Rightarrow> jsvalue list" where
  "objectValues kvs =
     map snd (sort_key (\<lambda>kv. indexValue (fst kv)) (filter (\<lambda>kv. isArrayIndex (fst kv)) kvs)
              @ filter (\<lambda>kv. \<not> isArrayIndex (fst kv)) kvs)"

definition tierValues :: "env \<Rightarrow> diskTier \<Rightarrow> jsvalue list" where
  "tierValues e d =
     (case d of
        DiskNull \<Rightarrow> []
      | DiskObject kvs \<Rightarrow> objectValues kvs
      | DiskOther v assigned \<Rightarrow> if truthy (Some v) then otherValues e v assigned else [])"

definition mapSerpPlaceResult ::
  "env \<Rightarrow> json option \<Rightarrow> jsstring \<Rightarrow> jserror + json option" where
  "mapSerpPlaceResult e place fallbackPlaceId =
     (case place of
        None \<Rightarrow> Inr None
      | Some p \<Rightarrow>
          if \<not> truthy place then Inr None
          else bindE (mapSerpFields e p fallbackPlaceId) (\<lambda>fields. Inr (Some (JObj fields))))"

text \<open>\<^verbatim>\<open>String(item?.place_id || '').trim()\<close>.\<close>

definition placeIdOf :: "json option \<Rightarrow> jserror + jsstring" where
  "placeIdOf item =
     bindE (toStr (orValue (getPropOpt item (ascii ''place_id'')) (Some (JStr []))))
       (\<lambda>s. Inr (trim s))"

text \<open>\<^verbatim>\<open>xs.find(p)\<close> where \<open>p\<close> may throw: the items are tried in order.\<close>

fun findE :: "('a \<Rightarrow> jserror + bool) \<Rightarrow> 'a list \<Rightarrow> jserror + 'a option" where
  "findE p [] = Inr None"
| "findE p (x # xs) =
     (case p x of
        Inl err \<Rightarrow> Inl err
      | Inr b \<Rightarrow> if b then Inr (Some x) else findE p xs)"

definition pickPlaceResult :: "json \<Rightarrow> jsstring \<Rightarrow> jserror + json option" where
  "pickPlaceResult data pid =
     (let localResults = arrayOrEmpty (getPropOpt (Some data) (ascii ''local_results''));
          placeResults = orValue (getPropOpt (Some data) (ascii ''place_results''))
                                 (getPropOpt (Some data) (ascii ''place_result''));
          candidates = (if localResults \<noteq> [] then localResults
                        else case placeResults of
                               Some p \<Rightarrow> if truthy placeResults then [p] else []
                             | None \<Rightarrow> [])
      in if pid = [] then Inr (if truthy (first candidates) then first candidates else None)
         else
           bindE (findE (\<lambda>item. bindE (placeIdOf (Some item)) (\<lambda>s. Inr (s = pid))) candidates)
             (\<lambda>match.
                Inr (if truthy match then match
                     else if truthy (first candidates) then first candidates else None)))"

text \<open>
  A fetch function returns what its caller receives, \<open>Inl\<close> for an exception that leaves
  the function, together with the stores after the call. The body of each
  \<^verbatim>\<open>try\<close> block is a definition of its own, with \<open>Inl\<close> for what it throws; the
  function then goes on from the body's outcome as its \<^verbatim>\<open>catch\<close> clause says.
\<close>

text \<open>The \<^verbatim>\<open>try\<close> body of the SerpApi and SearchApi branch of \<open>fetchPlaceIdByQuery\<close>.\<close>

definition serpFindBody :: "env \<Rightarrow> http_reply \<Rightarrow> jserror + jsstring" where
  "serpFindBody e r =
     bindE (fetchSerpApiJson e r) (\<lambda>data.
     bindE (getProp (Some data) (ascii ''local_results'')) (\<lambda>lr.
     bindE (if truthy (first (arrayOrEmpty lr)) then Inr (first (arrayOrEmpty lr))
            else getProp (Some data) (ascii ''place_results'')) (\<lambda>found.
       placeIdOf (if truthy found then found else None))))"

text \<open>
  The \<^verbatim>\<open>try\<close> body of the Google branch; its early \<^verbatim>\<open>return ''\<close> caches nothing, as
  an empty id does.
\<close>

definition googleFindBody :: "http_reply \<Rightarrow> jserror + jsstring" where
  "googleFindBody r =
     bindE (fetchJson r) (\<lambda>data.
     bindE (getProp (Some data) (ascii ''status'')) (\<lambda>status.
       if status \<noteq> Some (JStr (ascii ''OK'')) then Inr []
       else
         bindE (getProp (Some data) (ascii ''candidates'')) (\<lambda>candidates.
           case candidates of
             Some (JArr xs) \<Rightarrow>
               if \<not> truthy (first xs) then Inr []
               else
                 bindE (getProp (first xs) (ascii ''place_id'')) (\<lambda>p.
                 bindE (toStr (orValue p (Some (JStr [])))) (\<lambda>s.
                   Inr (trim s)))
           | _ \<Rightarrow> Inr [])))"

definition fetchPlaceIdByQuery ::
  "env \<Rightarrow> world \<Rightarrow> places_state \<Rightarrow> jsstring \<Rightarrow> (jserror + jsstring) \<times> places_state" where
  "fetchPlaceIdByQuery e w st query =
     (if \<not> isPlacesApiEnabled e \<or> query = [] then (Inr [], st)
      else
        let (cached, c1) = getCachedValue (placeIdCache st) query (startTime w);
            st1 = st\<lparr>placeIdCache := c1\<rparr>;
            finish = (\<lambda>body. case body of
                        Inl err \<Rightarrow> (Inr [], st1)
                      | Inr pid \<Rightarrow>
                          (Inr pid,
                           if pid \<noteq> []
                           then st1\<lparr>placeIdCache := setCachedValue c1 query pid (replyTime w)\<rparr>
                           else st1))
        in if orEmpty cached \<noteq> [] then (Inr (orEmpty cached), st1)
        else if PLACES_PROVIDER e = ascii ''serpapi'' \<or> PLACES_PROVIDER e = ascii ''searchapi''
          then finish (serpFindBody e (reply w))
        else if GOOGLE_PLACES_API_KEY e = [] then (Inr [], st1)
        else finish (googleFindBody (reply w)))"

text \<open>
  The three \<^verbatim>\<open>try\<close> bodies of \<open>fetchPlaceDetails\<close>, up to the place they found
  (\<open>None\<close> where the body returns null).
\<close>

definition searchapiDetailsBody :: "env \<Rightarrow> http_reply \<Rightarrow> jsstring \<Rightarrow> jserror + json option" where
  "searchapiDetailsBody e r pid =
     bindE (fetchSerpApiJson e r) (\<lambda>data.
     bindE (pickPlaceResult data pid) (\<lambda>place.
       mapSerpPlaceResult e place pid))"

definition serpapiDetailsBody :: "env \<Rightarrow> http_reply \<Rightarrow> jsstring \<Rightarrow> jserror + json option" where
  "serpapiDetailsBody e r pid =
     bindE (fetchSerpApiJson e r) (\<lambda>data.
     bindE (getProp (Some data) (ascii ''place_results'')) (\<lambda>r1.
     bindE (if truthy r1 then Inr r1 else getProp (Some data) (ascii ''place_result'')) (\<lambda>r2.
     bindE (if truthy r2 then Inr r2
            else bindE (getProp (Some data) (ascii ''local_results'')) (\<lambda>lr.
                   case lr of Some (JArr xs) \<Rightarrow> Inr (first xs) | _ \<Rightarrow> Inr None)) (\<lambda>place.
       mapSerpPlaceResult e place pid))))"

definition googleDetailsBody :: "http_reply \<Rightarrow> jserror + json option" where
  "googleDetailsBody r =
     bindE (fetchJson r) (\<lambda>data.
     bindE (getProp (Some data) (ascii ''status'')) (\<lambda>status.
       if status \<noteq> Some (JStr (ascii ''OK'')) then Inr None
       else bindE (getProp (Some data) (ascii ''result'')) (\<lambda>res.
              Inr (if truthy res then res else None))))"

text \<open>
  The part of \<open>fetchPlaceDetails\<close> after both tiers have missed: the provider is asked.
  Each \<^verbatim>\<open>try\<close> block ends with \<^verbatim>\<open>setCachedValue(placesCache, placeId, v);
  diskCache[placeId] = v; savePlaceDetailsDiskCache(); return v;\<close> so an exception of
  the assignment is caught after the memory tier has been written.
\<close>

definition fetchPlaceDetailsLive ::
  "env \<Rightarrow> world \<Rightarrow> places_state \<Rightarrow> diskTier \<Rightarrow> jsstring \<Rightarrow> jsstring
   \<Rightarrow> (jserror + jsvalue option) \<times> places_state" where
  "fetchPlaceDetailsLive e w st diskCache pid query =
     (let finish = (\<lambda>body. case body of
                      Inl err \<Rightarrow> (Inr None, st)
                    | Inr None \<Rightarrow> (Inr None, st)
                    | Inr (Some v) \<Rightarrow>
                        (let st1 = st\<lparr>placesCache :=
                                        setCachedValue (placesCache st) pid (Json v) (replyTime w)\<rparr>
                         in case assignMember e st1 diskCache pid (Json v) of
                              Inl err \<Rightarrow> (Inr None, st1)
                            | Inr st2 \<Rightarrow> (Inr (Some (Json v)), st2)))
      in if PLACES_PROVIDER e = ascii ''searchapi'' then
           (if trim query = [] then (Inr None, st)
            else finish (searchapiDetailsBody e (reply w) pid))
         else if PLACES_PROVIDER e = ascii ''serpapi'' then
           finish (serpapiDetailsBody e (reply w) pid)
         else if GOOGLE_PLACES_API_KEY e = [] then (Inr None, st)
         else finish (googleDetailsBody (reply w)))"

text \<open>
  \<open>fetchPlaceDetails\<close>. The read \<^verbatim>\<open>diskCache[placeId]\<close> stands outside every
  \<^verbatim>\<open>try\<close> block: what it throws leaves the function.
\<close>

definition fetchPlaceDetails ::
  "env \<Rightarrow> world \<Rightarrow> places_state \<Rightarrow> jsstring \<Rightarrow> jsstring
   \<Rightarrow> (jserror + jsvalue option) \<times> places_state" where
  "fetchPlaceDetails e w st pid query =
     (if \<not> isPlacesApiEnabled e \<or> pid = [] then (Inr None, st)
      else
        let (cached, c1) = getCachedValue (placesCache st) pid (startTime w);
            st1 = st\<lparr>placesCache := c1\<rparr>
        in if truthyValue cached then (Inr cached, st1)
        else
          let (diskCache, st2) = loadPlaceDetailsDiskCache e st1
          in case readMember e diskCache pid of
               Inl err \<Rightarrow> (Inl err, st2)
             | Inr None \<Rightarrow> fetchPlaceDetailsLive e w st2 diskCache pid query
             | Inr (Some d) \<Rightarrow>
                 if truthyValue (Some d)
                 then (Inr (Some d),
                       st2\<lparr>placesCache := setCachedValue c1 pid d (startTime w)\<rparr>)
                 else fetchPlaceDetailsLive e w st2 diskCache pid query)"

text \<open>
  \<open>getCompanyPlaceData\<close> may wait for two requests, one to find the place id and one for
  the details: \<open>w1\<close> and \<open>w2\<close>. Its variable \<open>diskCache\<close> is loaded at the start; when it
  is an object, an array or a truthy primitive it is the resident value, which
  \<open>fetchPlaceDetails\<close> may have written to in between.
\<close>

definition getCompanyPlaceData ::
  "env \<Rightarrow> world \<Rightarrow> world \<Rightarrow> places_state \<Rightarrow> company
   \<Rightarrow> (jserror + jsvalue option) \<times> places_state" where
  "getCompanyPlaceData e w1 w2 st company =
     (let explicitPlaceId = trim (orElse (orEmpty (placeId company)) (orEmpty (place_id company)));
          query = trim (orElse (orEmpty (mapQuery company)) (orEmpty (name company)));
          (diskCache, st1) = loadPlaceDetailsDiskCache e st
      in case (if explicitPlaceId \<noteq> [] then readMember e diskCache explicitPlaceId
               else Inr None) of
           Inl err \<Rightarrow> (Inl err, st1)
         | Inr cachedByPlaceId \<Rightarrow>
             if \<not> isPlacesApiEnabled e then
               (if truthyValue cachedByPlaceId then (Inr cachedByPlaceId, st1)
                else
                  let match = find (\<lambda>item. nameOf item = map_option JStr (name company))
                                   (tierValues e diskCache)
                  in (Inr (if truthyValue match then match else None), st1))
             else
               let (found, st2) = (if explicitPlaceId \<noteq> [] then (Inr explicitPlaceId, st1)
                                   else fetchPlaceIdByQuery e w1 st1 query)
               in case found of
                    Inl err \<Rightarrow> (Inl err, st2)
                  | Inr pid \<Rightarrow>
                      if pid = [] then (Inr None, st2)
                      else
                        let (live, st3) = fetchPlaceDetails e w2 st2 pid query;
                            diskNow = (if tierTruthy diskCache then placeDetailsDiskCache st3
                                       else diskCache);
                            stored = (case readMember e diskNow pid of
                                        Inl err \<Rightarrow> (Inl err, st3)
                                      | Inr d \<Rightarrow> (Inr (if truthyValue d then d else None), st3))
                        in case live of
                             Inl err \<Rightarrow> (Inl err, st3)
                           | Inr None \<Rightarrow> stored
                           | Inr (Some v) \<Rightarrow>
                               if truthyValue (Some v)
                               then (case assignMember e st3 diskNow pid v of
                                       Inl err \<Rightarrow> (Inl err, st3)
                                     | Inr st4 \<Rightarrow> (Inr (Some v), st4))
                               else stored)"

subsection \<open>Words of the claims about the place tiers\<close>

text \<open>
  The live call fails: a network error, a body that is not JSON, a status that is not
  OK, or a payload that is not a JSON object.
\<close>

definition liveCallFails :: "http_reply \<Rightarrow> bool" where
  "liveCallFails r =
     (case r of
        NetworkError \<Rightarrow> True
      | BodyNotJson \<Rightarrow> True
      | Response ok data \<Rightarrow> \<not> ok \<or> (case data of JObj kvs \<Rightarrow> False | _ \<Rightarrow> True))"

text \<open>
  The provider answers with no match: an object with no local result, no place result
  and no candidate.
\<close>

definition noMatch :: "http_reply \<Rightarrow> bool" where
  "noMatch r =
     (case r of
        Response ok (JObj kvs) \<Rightarrow>
          arrayOrEmpty (map_of kvs (ascii ''local_results'')) = []
          \<and> \<not> truthy (map_of kvs (ascii ''place_results''))
          \<and> arrayOrEmpty (map_of kvs (ascii ''candidates'')) = []
      | _ \<Rightarrow> False)"

text \<open>
  The entry of an id in the disk tier: the own property of that name, when the disk
  tier is an object.
\<close>

definition diskEntry :: "diskTier \<Rightarrow> jsstring \<Rightarrow> jsvalue option" where
  "diskEntry d pid = (case d of DiskObject kvs \<Rightarrow> map_of kvs pid | _ \<Rightarrow> None)"

text \<open>\<^verbatim>\<open>v || null\<close>.\<close>

definition orNull :: "jsvalue option \<Rightarrow> jsvalue option" where
  "orNull v = (if truthyValue v then v else None)"

subsection \<open>Small configurations to run the places code on\<close>

text \<open>
  The Google provider with a key, a disk file with one place \<open>p1\<close>, empty memory stores,
  and a request that meets a network error. \<open>envNullFile\<close> is the same configuration
  with a disk file that holds the JSON text \<^verbatim>\<open>null\<close>.
\<close>

definition placeP1 :: json where
  "placeP1 = JObj [(ascii ''place_id'', JStr (ascii ''p1'')), (ascii ''name'', JStr (ascii ''Casa''))]"

definition envGoogle :: env where
  "envGoogle =
     \<lparr>PLACES_API_ENABLED = True, PLACES_PROVIDER = ascii ''google'',
      GOOGLE_PLACES_API_KEY = ascii ''key'', SERPAPI_KEY = [], SEARCHAPI_KEY = [],
      diskFile = Some (JObj [(ascii ''p1'', placeP1)]), existsSync = (\<lambda>f. False),
      toLowerCase = asciiLower, mapSerpFields = (\<lambda>p f. Inr []),
      otherGet = (\<lambda>v assigned key. None), otherSet = (\<lambda>v assigned key x. None),
      otherValues = (\<lambda>v assigned. [])\<rparr>"

definition envDisabled :: env where
  "envDisabled = envGoogle\<lparr>PLACES_API_ENABLED := False\<rparr>"

definition envNullFile :: env where
  "envNullFile = envGoogle\<lparr>diskFile := Some JNull\<rparr>"

definition freshState :: places_state where
  "freshState = \<lparr>placesCache = Map.empty, placeIdCache = Map.empty, placeDetailsDiskCache = DiskNull\<rparr>"

definition worldDown :: world where
  "worldDown = \<lparr>startTime = 1000, reply = NetworkError, replyTime = 2000\<rparr>"

definition companyP1 :: company where
  "companyP1 =
     \<lparr>slug = Some (ascii ''casa''), name = Some (ascii ''Casa''), summary = None, city = None,
      industry = None, category = None, placeId = Some (ascii ''p1''), place_id = None,
      contact = None, cover = None, mapQuery = None, lat = None, lng = None\<rparr>"

section \<open>The submissions API\<close>

text \<open>The decimal text of a count or an id, as a template literal prints it.\<close>

fun decimal :: "nat \<Rightarrow> jsstring" where
  "decimal n = (if n < 10 then [0x30 + n] else decimal (n div 10) @ [0x30 + n mod 10])"

declare decimal.simps [simp del]

text \<open>
  The body of \<^verbatim>\<open>POST /api/submit\<close> after \<^verbatim>\<open>express.json()\<close>: each of the six
  properties is any JSON value, or missing.
\<close>

record submit_body =
  body_name :: "json option"
  body_email :: "json option"
  body_city :: "json option"
  body_type :: "json option"
  body_details :: "json option"
  body_contact :: "json option"

text \<open>
  A row of the table \<^verbatim>\<open>submissions\<close>. \<open>created_at\<close> is the value of
  \<^verbatim>\<open>CURRENT_TIMESTAMP\<close> at the insert, in seconds.
\<close>

record submission =
  sub_id :: nat
  sub_name :: jsstring
  sub_email :: jsstring
  sub_city :: "json option"
  sub_type :: "json option"
  sub_details :: "json option"
  sub_contact :: jsstring
  created_at :: int

text \<open>The table with its \<^verbatim>\<open>AUTOINCREMENT\<close> counter.\<close>

record database =
  submissions :: "submission list"
  lastID :: nat

text \<open>
  A JSON response: the status and the properties of the object sent (\<open>ok\<close>, and
  \<open>message\<close>, \<open>id\<close> or \<open>data\<close> where the handler sets them).
\<close>

record response =
  res_status :: nat
  res_ok :: bool
  res_message :: "jsstring option"
  res_id :: "nat option"
  res_data :: "submission list option"

text \<open>
  \<^verbatim>\<open>(x || '').trim()\<close>: a truthy value that is not a string has no method \<open>trim\<close>, and the
  call throws a TypeError.
\<close>

definition trimOrEmpty :: "json option \<Rightarrow> jserror + jsstring" where
  "trimOrEmpty v =
     (if \<not> truthy v then Inr (trim [])
      else case v of Some (JStr s) \<Rightarrow> Inr (trim s) | _ \<Rightarrow> Inl TypeError)"

text \<open>The default visitor label, U+7F51 U+7AD9 U+8BBF U+5BA2 (web site visitor).\<close>

definition visitorLabel :: jsstring where
  "visitorLabel = [0x7F51, 0x7AD9, 0x8BBF, 0x5BA2]"

text \<open>The message of the 400 response, U+7F3A U+5C11 U+8054 U+7CFB U+65B9 U+5F0F (contact missing).\<close>

definition missingContact :: jsstring where
  "missingContact = [0x7F3A, 0x5C11, 0x8054, 0x7CFB, 0x65B9, 0x5F0F]"

text \<open>U+5B58 U+50A8 U+5931 U+8D25 (storing failed) and U+8BFB U+53D6 U+5931 U+8D25 (reading failed).\<close>

definition storeFailed :: jsstring where
  "storeFailed = [0x5B58, 0x50A8, 0x5931, 0x8D25]"

definition readFailed :: jsstring where
  "readFailed = [0x8BFB, 0x53D6, 0x5931, 0x8D25]"

text \<open>
  The handler of \<^verbatim>\<open>POST /api/submit\<close>. \<open>insertFails\<close> says whether SQLite reports an
  error for the insert, \<open>t\<close> is the time of the insert. \<open>Inl\<close> is an exception that
  leaves the handler, which Express answers with status 500. The two calls that mirror
  the row to a sheet are fire-and-forget and change nothing here.
\<close>

definition submit ::
  "database \<Rightarrow> bool \<Rightarrow> int \<Rightarrow> submit_body \<Rightarrow> (jserror + response) \<times> database" where
  "submit db insertFails t b =
     (case trimOrEmpty (body_contact b) of
        Inl err \<Rightarrow> (Inl err, db)
      | Inr safeContact \<Rightarrow>
     (case trimOrEmpty (body_name b) of
        Inl err \<Rightarrow> (Inl err, db)
      | Inr trimmedName \<Rightarrow>
     (case trimOrEmpty (body_email b) of
        Inl err \<Rightarrow> (Inl err, db)
      | Inr trimmedEmail \<Rightarrow>
          let safeName = orElse trimmedName (if safeContact \<noteq> [] then visitorLabel else []);
              safeEmail = orElse trimmedEmail safeContact
          in if safeEmail = [] then
               (Inr \<lparr>res_status = 400, res_ok = False, res_message = Some missingContact,
                     res_id = None, res_data = None\<rparr>, db)
             else if insertFails then
               (Inr \<lparr>res_status = 500, res_ok = False, res_message = Some storeFailed,
                     res_id = None, res_data = None\<rparr>, db)
             else
               (Inr \<lparr>res_status = 200, res_ok = True, res_message = None,
                     res_id = Some (Suc (lastID db)), res_data = None\<rparr>,
                db\<lparr>submissions := submissions db @
                       [\<lparr>sub_id = Suc (lastID db), sub_name = safeName, sub_email = safeEmail,
                         sub_city = body_city b, sub_type = body_type b,
                         sub_details = body_details b, sub_contact = safeContact,
                         created_at = t\<rparr>],
                    lastID := Suc (lastID db)\<rparr>))))"

text \<open>
  \<^verbatim>\<open>parseInt(s, 10)\<close>: leading white space, a sign, then the longest run of digits;
  \<open>None\<close> is NaN. The value is exact here; JavaScript rounds beyond \<open>2^53\<close>, far
  from the bound 500 on both sides.
\<close>

definition isDigit :: "nat \<Rightarrow> bool" where
  "isDigit c \<longleftrightarrow> 0x30 \<le> c \<and> c \<le> 0x39"

definition digitsValue :: "jsstring \<Rightarrow> nat" where
  "digitsValue ds = foldl (\<lambda>acc c. 10 * acc + (c - 0x30)) 0 ds"

definition parseInt10 :: "jsstring \<Rightarrow> int option" where
  "parseInt10 s =
     (let s1 = dropWhile isWhiteSpace s;
          negative = (s1 \<noteq> [] \<and> hd s1 = 0x2D);
          s2 = (if s1 \<noteq> [] \<and> (hd s1 = 0x2D \<or> hd s1 = 0x2B) then tl s1 else s1);
          ds = takeWhile isDigit s2
      in if ds = [] then None
         else Some (if negative then - int (digitsValue ds) else int (digitsValue ds)))"

text \<open>
  \<^verbatim>\<open>Math.min(parseInt(req.query.limit, 10) || 100, 500)\<close>. The parameter is a string or
  missing; \<^verbatim>\<open>parseInt(undefined)\<close> is NaN, and NaN and 0 are falsy.
\<close>

definition requestedLimit :: "jsstring option \<Rightarrow> int" where
  "requestedLimit q =
     (let parsed = (case q of None \<Rightarrow> None | Some s \<Rightarrow> parseInt10 s);
          wanted = (case parsed of None \<Rightarrow> 100 | Some n \<Rightarrow> if n = 0 then 100 else n)
      in min wanted 500)"

text \<open>
  \<^verbatim>\<open>SELECT ... FROM submissions ORDER BY datetime(created_at) DESC LIMIT ?\<close>. In SQLite a
  negative \<^verbatim>\<open>LIMIT\<close> puts no bound on the number of rows. Rows of equal time are
  left in the order of the table.
\<close>

definition selectSubmissions :: "submission list \<Rightarrow> int \<Rightarrow> submission list" where
  "selectSubmissions rows n =
     (let ordered = sort_key (\<lambda>r. - created_at r) rows
      in if n < 0 then ordered else take (nat n) ordered)"

text \<open>The handler of \<^verbatim>\<open>GET /api/submissions\<close>; \<open>readFails\<close>: SQLite reports an error.\<close>

definition getSubmissions :: "database \<Rightarrow> bool \<Rightarrow> jsstring option \<Rightarrow> response" where
  "getSubmissions db readFails q =
     (let limit = requestedLimit q
      in if readFails then
           \<lparr>res_status = 500, res_ok = False, res_message = Some readFailed, res_id = None,
            res_data = None\<rparr>
         else
           \<lparr>res_status = 200, res_ok = True, res_message = None, res_id = None,
            res_data = Some (selectSubmissions (submissions db) limit)\<rparr>)"

text \<open>A table of \<open>n\<close> rows, one inserted each second.\<close>

definition sampleRows :: "nat \<Rightarrow> submission list" where
  "sampleRows n =
     map (\<lambda>i. \<lparr>sub_id = Suc i, sub_name = visitorLabel, sub_email = ascii ''a@b.mx'',
               sub_city = None, sub_type = None, sub_details = None, sub_contact = [],
               created_at = int i\<rparr>) [0..<n]"

section \<open>The directory builder: helpers\<close>

text \<open>\<^verbatim>\<open>xs.map(f)\<close> where \<open>f\<close> may throw: the first exception ends the loop.\<close>

fun mapE :: "('a \<Rightarrow> jserror + 'b) \<Rightarrow> 'a list \<Rightarrow> jserror + 'b list" where
  "mapE f [] = Inr []"
| "mapE f (x # xs) = bindE (f x) (\<lambda>y. bindE (mapE f xs) (\<lambda>ys. Inr (y # ys)))"

subsection \<open>slugifyAscii\<close>

definition isSlugChar :: "nat \<Rightarrow> bool" where
  "isSlugChar c \<longleftrightarrow> (0x61 \<le> c \<and> c \<le> 0x7A) \<or> (0x30 \<le> c \<and> c \<le> 0x39)"

text \<open>
  \<^verbatim>\<open>.replace(/[^a-z0-9]+/g, '-')\<close>: every maximal run of other characters becomes one
  hyphen. \<open>inRun\<close> says that the character before was part of such a run.
\<close>

fun dashRuns :: "bool \<Rightarrow> jsstring \<Rightarrow> jsstring" where
  "dashRuns inRun [] = []"
| "dashRuns inRun (c # cs) =
     (if isSlugChar c then c # dashRuns False cs
      else if inRun then dashRuns True cs
      else 0x2D # dashRuns True cs)"

text \<open>\<^verbatim>\<open>.replace(/^-|-$/g, '')\<close>: a hyphen at the start and a hyphen at the end go.\<close>

definition stripHyphens :: "jsstring \<Rightarrow> jsstring" where
  "stripHyphens s =
     (let s1 = (if s \<noteq> [] \<and> hd s = 0x2D then tl s else s)
      in if s1 \<noteq> [] \<and> last s1 = 0x2D then butlast s1 else s1)"

definition slugifyAscii :: "(jsstring \<Rightarrow> jsstring) \<Rightarrow> jsstring \<Rightarrow> jsstring" where
  "slugifyAscii lc v = stripHyphens (dashRuns False (lc v))"

subsection \<open>encodeURIComponent\<close>

text \<open>The code points of a string; a surrogate without its partner is a URIError.\<close>

fun codePoints :: "jsstring \<Rightarrow> jserror + nat list" where
  "codePoints [] = Inr []"
| "codePoints (c # cs) =
     (if 0xD800 \<le> c \<and> c \<le> 0xDBFF then
        (case cs of
           [] \<Rightarrow> Inl URIError
         | d # ds \<Rightarrow>
             if 0xDC00 \<le> d \<and> d \<le> 0xDFFF
             then bindE (codePoints ds)
                    (\<lambda>r. Inr (((c - 0xD800) * 0x400 + (d - 0xDC00) + 0x10000) # r))
             else Inl URIError)
      else if 0xDC00 \<le> c \<and> c \<le> 0xDFFF then Inl URIError
      else bindE (codePoints cs) (\<lambda>r. Inr (c # r)))"

definition utf8Bytes :: "nat \<Rightarrow> nat list" where
  "utf8Bytes cp =
     (if cp < 0x80 then [cp]
      else if cp < 0x800 then [0xC0 + cp div 0x40, 0x80 + cp mod 0x40]
      else if cp < 0x10000 then
        [0xE0 + cp div 0x1000, 0x80 + (cp div 0x40) mod 0x40, 0x80 + cp mod 0x40]
      else
        [0xF0 + cp div 0x40000, 0x80 + (cp div 0x1000) mod 0x40,
         0x80 + (cp div 0x40) mod 0x40, 0x80 + cp mod 0x40])"

definition hexDigit :: "nat \<Rightarrow> nat" where
  "hexDigit n = (if n < 10 then 0x30 + n else 0x41 + (n - 10))"

definition percentByte :: "nat \<Rightarrow> jsstring" where
  "percentByte b = [0x25, hexDigit (b div 16), hexDigit (b mod 16)]"

text \<open>Letters, digits and \<^verbatim>\<open>- _ . ! ~ * ' ( )\<close> are kept.\<close>

definition isUriUnreserved :: "nat \<Rightarrow> bool" where
  "isUriUnreserved c \<longleftrightarrow>
     (0x41 \<le> c \<and> c \<le> 0x5A) \<or> (0x61 \<le> c \<and> c \<le> 0x7A) \<or> (0x30 \<le> c \<and> c \<le> 0x39)
     \<or> c = 0x2D \<or> c = 0x5F \<or> c = 0x2E \<or> c = 0x21 \<or> c = 0x7E \<or> c = 0x2A \<or> c = 0x27
     \<or> c = 0x28 \<or> c = 0x29"

definition encodeURIComponent :: "jsstring \<Rightarrow> jserror + jsstring" where
  "encodeURIComponent s =
     bindE (codePoints s) (\<lambda>cps.
       Inr (concat (map (\<lambda>cp. if isUriUnreserved cp then [cp]
                               else concat (map percentByte (utf8Bytes cp))) cps)))"

subsection \<open>Filling a template\<close>

text \<open>
  \<^verbatim>\<open>template.replace(pattern, replacement)\<close> with a string pattern: the first occurrence
  is replaced, and in the replacement \<^verbatim>\<open>$$\<close> stands for a dollar sign, \<^verbatim>\<open>$&\<close> for the
  matched text, \<^verbatim>\<open>$`\<close> for the text before the match and \<^verbatim>\<open>$'\<close> for the text after it.
\<close>

fun splitFirst :: "jsstring \<Rightarrow> jsstring \<Rightarrow> (jsstring \<times> jsstring) option" where
  "splitFirst pat [] = (if pat = [] then Some ([], []) else None)"
| "splitFirst pat (c # cs) =
     (if prefix pat (c # cs) then Some ([], drop (length pat) (c # cs))
      else map_option (\<lambda>(pre, post). (c # pre, post)) (splitFirst pat cs))"

fun getSubstitution :: "jsstring \<Rightarrow> jsstring \<Rightarrow> jsstring \<Rightarrow> jsstring \<Rightarrow> jsstring" where
  "getSubstitution matched pre post [] = []"
| "getSubstitution matched pre post [c] = [c]"
| "getSubstitution matched pre post (c # d # ds) =
     (if c = 0x24 \<and> d = 0x24 then 0x24 # getSubstitution matched pre post ds
      else if c = 0x24 \<and> d = 0x26 then matched @ getSubstitution matched pre post ds
      else if c = 0x24 \<and> d = 0x60 then pre @ getSubstitution matched pre post ds
      else if c = 0x24 \<and> d = 0x27 then post @ getSubstitution matched pre post ds
      else c # getSubstitution matched pre post (d # ds))"

definition replaceFirst :: "jsstring \<Rightarrow> jsstring \<Rightarrow> jsstring \<Rightarrow> jsstring" where
  "replaceFirst pat replacement s =
     (case splitFirst pat s of
        None \<Rightarrow> s
      | Some (pre, post) \<Rightarrow> pre @ getSubstitution pat pre post replacement @ post)"

subsection \<open>The cover of a card\<close>

text \<open>\<^verbatim>\<open>/^[-a-zA-Z0-9_./:]+$/\<close>\<close>

definition isCoverChar :: "nat \<Rightarrow> bool" where
  "isCoverChar c \<longleftrightarrow>
     (0x41 \<le> c \<and> c \<le> 0x5A) \<or> (0x61 \<le> c \<and> c \<le> 0x7A) \<or> (0x30 \<le> c \<and> c \<le> 0x39)
     \<or> c = 0x2D \<or> c = 0x5F \<or> c = 0x2E \<or> c = 0x2F \<or> c = 0x3A"

definition sanitizeCover :: "jsstring option \<Rightarrow> jsstring" where
  "sanitizeCover v =
     (let raw = trim (orEmpty v)
      in if raw = [] then [] else if \<not> list_all isCoverChar raw then [] else raw)"

text \<open>
  \<open>existsSync e f\<close>: the file \<open>f\<close> exists in \<^verbatim>\<open>image/place-photos\<close>. The result is the
  \<open>url\<close> of the photo, \<open>None\<close> for null.
\<close>

definition getLocalPlacePhoto :: "env \<Rightarrow> jsstring \<Rightarrow> nat \<Rightarrow> jsstring option" where
  "getLocalPlacePhoto e pid index =
     (let safeId = trim pid
      in if safeId = [] then None
         else let fileName = (if index > 0 then safeId @ ascii ''-'' @ decimal index @ ascii ''.jpg''
                              else safeId @ ascii ''.jpg'')
              in if existsSync e fileName then Some (ascii ''/image/place-photos/'' @ fileName)
                 else None)"

definition buildPlacePhotoUrl :: "env \<Rightarrow> jsstring \<Rightarrow> nat \<Rightarrow> jsstring" where
  "buildPlacePhotoUrl e pid index =
     (case getLocalPlacePhoto e pid index of
        Some url \<Rightarrow> url
      | None \<Rightarrow>
          if \<not> isPlacesApiEnabled e then []
          else let safeId = trim pid
               in if safeId = [] then []
                  else ascii ''/api/place-photo/'' @ safeId
                       @ (if index > 0 then ascii ''/'' @ decimal index else []))"

definition resolveCompanyCoverUrl :: "env \<Rightarrow> company \<Rightarrow> jsstring \<Rightarrow> jsstring" where
  "resolveCompanyCoverUrl e company pid =
     (let explicitCover = sanitizeCover (cover company)
      in if explicitCover \<noteq> [] then explicitCover
         else let localCover = orEmpty (getLocalPlacePhoto e pid 0)
              in orElse (sanitizeCover (Some localCover)) (buildPlacePhotoUrl e pid 0))"

section \<open>The directory builder: grouping and ordering\<close>

text \<open>
  The defaults, U+672A U+5206 U+7C7B U+57CE U+5E02 (city not classified) and
  U+5176 U+4ED6 (other), and the two pinned cities, U+58A8 U+897F U+54E5 U+57CE (Mexico
  City) and U+8499 U+7279 U+96F7 (Monterrey).
\<close>

definition unclassifiedCity :: jsstring where
  "unclassifiedCity = [0x672A, 0x5206, 0x7C7B, 0x57CE, 0x5E02]"

definition otherLabel :: jsstring where
  "otherLabel = [0x5176, 0x4ED6]"

definition mexicoCity :: jsstring where
  "mexicoCity = [0x58A8, 0x897F, 0x54E5, 0x57CE]"

definition monterrey :: jsstring where
  "monterrey = [0x8499, 0x7279, 0x96F7]"

definition priorityCities :: "(jsstring \<times> nat) list" where
  "priorityCities = [(mexicoCity, 0), (monterrey, 1)]"

text \<open>\<^verbatim>\<open>company.city || (default)\<close> and \<^verbatim>\<open>company.industry || (default)\<close>.\<close>

definition cityOf :: "company \<Rightarrow> jsstring" where
  "cityOf company = orElse (orEmpty (city company)) unclassifiedCity"

definition industryOf :: "company \<Rightarrow> jsstring" where
  "industryOf company = orElse (orEmpty (industry company)) otherLabel"

text \<open>
  A JavaScript \<^verbatim>\<open>Map\<close> is an association list in insertion order, each key once:
  \<^verbatim>\<open>get\<close> is \<open>map_of\<close>, \<^verbatim>\<open>set\<close> of a new key appends.
\<close>

record cityEntry =
  count :: nat
  industries :: "(jsstring \<times> company list) list"

record grouping =
  cityOrder :: "jsstring list"
  cityIndex :: "(jsstring \<times> nat) list"
  cityMap :: "(jsstring \<times> cityEntry) list"

text \<open>The body of \<^verbatim>\<open>companies.forEach\<close>.\<close>

definition addCompany :: "grouping \<Rightarrow> company \<Rightarrow> grouping" where
  "addCompany g company =
     (let cty = cityOf company;
          ind = industryOf company;
          g1 = (if map_of (cityMap g) cty = None
                then \<lparr>cityOrder = cityOrder g @ [cty],
                      cityIndex = cityIndex g @ [(cty, length (cityOrder g))],
                      cityMap = cityMap g @ [(cty, \<lparr>count = 0, industries = []\<rparr>)]\<rparr>
                else g)
      in g1\<lparr>cityMap :=
             AList.map_entry cty
               (\<lambda>entry.
                  let known = (if map_of (industries entry) ind = None
                               then industries entry @ [(ind, [])] else industries entry)
                  in \<lparr>count = count entry + 1,
                      industries = AList.map_entry ind (\<lambda>items. items @ [company]) known\<rparr>)
               (cityMap g1)\<rparr>)"

definition groupCompanies :: "company list \<Rightarrow> grouping" where
  "groupCompanies companies =
     foldl addCompany \<lparr>cityOrder = [], cityIndex = [], cityMap = []\<rparr> companies"

text \<open>
  The comparator of both sorts (cities, and categories of the food industry): the
  priority of a pinned name, \<^verbatim>\<open>Number.POSITIVE_INFINITY\<close> for any other (\<open>None\<close>), then
  the index of first occurrence. Only the sign of the result is used: \<open>-1\<close> and \<open>1\<close>
  stand for the infinite differences, and \<open>0\<close> for NaN, which \<^verbatim>\<open>sort\<close> reads as 0.
\<close>

definition compareByPriority ::
  "(jsstring \<times> nat) list \<Rightarrow> (jsstring \<times> nat) list \<Rightarrow> jsstring \<Rightarrow> jsstring \<Rightarrow> int" where
  "compareByPriority priority firstSeen a b =
     (let pa = map_of priority a; pb = map_of priority b
      in if pa \<noteq> pb then
           (case (pa, pb) of
              (Some x, Some y) \<Rightarrow> int x - int y
            | (Some x, None) \<Rightarrow> - 1
            | (None, Some y) \<Rightarrow> 1
            | (None, None) \<Rightarrow> 0)
         else
           (case (map_of firstSeen a, map_of firstSeen b) of
              (Some i, Some j) \<Rightarrow> int i - int j
            | _ \<Rightarrow> 0))"

text \<open>
  \<^verbatim>\<open>[...xs].sort(cmp)\<close>. The sort is stable and, for a comparator that is a total order,
  returns the one sorted arrangement; insertion from the right computes it.
\<close>

fun insertSorted :: "('a \<Rightarrow> 'a \<Rightarrow> int) \<Rightarrow> 'a \<Rightarrow> 'a list \<Rightarrow> 'a list" where
  "insertSorted cmp x [] = [x]"
| "insertSorted cmp x (y # ys) =
     (if cmp x y \<le> 0 then x # y # ys else y # insertSorted cmp x ys)"

definition arraySort :: "('a \<Rightarrow> 'a \<Rightarrow> int) \<Rightarrow> 'a list \<Rightarrow> 'a list" where
  "arraySort cmp xs = foldr (insertSorted cmp) xs []"

definition orderedCities :: "grouping \<Rightarrow> jsstring list" where
  "orderedCities g = arraySort (compareByPriority priorityCities (cityIndex g)) (cityOrder g)"

text \<open>\<^verbatim>\<open>xs.map((x, index) => ...)\<close>: every element with its index.\<close>

definition indexed :: "'a list \<Rightarrow> (nat \<times> 'a) list" where
  "indexed xs = zip [0..<length xs] xs"

section \<open>The directory builder: rendering\<close>


text \<open>The first button of the navigation, with the total (U+5168 U+90E8: all).\<close>

definition navAllButton :: "nat \<Rightarrow> jsstring" where
  \<open>navAllButton totalCount =
     ascii ''<button class="pill is-active" type="button" data-city="all">''
     @ [0x5168, 0x90E8]
     @ ascii '' <em>''
     @ decimal totalCount
     @ ascii ''</em></button>''\<close>

text \<open>\<^verbatim>\<open>slug ? `city-${slug}` : `city-${index + 1}`\<close>\<close>

definition sectionId :: "(jsstring \<Rightarrow> jsstring) \<Rightarrow> nat \<Rightarrow> jsstring \<Rightarrow> jsstring" where
  \<open>sectionId lc index cty =
     (let slugText = slugifyAscii lc cty
      in if slugText \<noteq> [] then ascii ''city-'' @ slugText else ascii ''city-'' @ decimal (index + 1))\<close>

text \<open>The button of one city, with its count.\<close>

definition navCityButton :: "(jsstring \<Rightarrow> jsstring) \<Rightarrow> nat \<Rightarrow> jsstring \<Rightarrow> nat \<Rightarrow> jsstring" where
  \<open>navCityButton lc index cty n =
     ascii ''<button class="pill" type="button" data-city="''
     @ escapeHtml (Some cty)
     @ ascii ''" data-city-target="''
     @ sectionId lc index cty
     @ ascii ''">''
     @ escapeHtml (Some cty)
     @ ascii '' <em>''
     @ decimal n
     @ ascii ''</em></button>''\<close>

text \<open>\<^verbatim>\<open>/<weitigong>|<zanwu>/i\<close>: the two placeholders that mean "no contact".\<close>

definition noContactRe :: "regex" where
  \<open>noContactRe =
     alts [lit [0x672A, 0x63D0, 0x4F9B], lit [0x6682, 0x65E0]]\<close>

text \<open>One card of \<open>renderCompanyCards\<close>; \<^verbatim>\<open>encodeURIComponent\<close> may throw.\<close>

definition renderCompanyCard :: "env \<Rightarrow> company \<Rightarrow> jserror + jsstring" where
  \<open>renderCompanyCard e company =
     (let safeName = escapeHtml (name company);
          safeSummary = escapeHtml (summary company);
          pid = trim (orElse (orEmpty (placeId company)) (orEmpty (place_id company)));
          contactValue = trim (orEmpty (contact company));
          safeContact = escapeHtml (Some contactValue);
          hasContact = (contactValue \<noteq> [] \<and> \<not> regexTest noContactRe contactValue)
      in bindE (encodeURIComponent (orEmpty (slug company))) (\<lambda>safeSlug.
         let safeCover = resolveCompanyCoverUrl e company pid;
             coverStyle = (if safeCover \<noteq> []
                      then ascii '' style="background-image: linear-gradient(140deg, rgba(15, 23, 42, 0.12), rgba(15, 23, 42, 0.35)), url(''
                        @ [0x27]
                        @ safeCover
                        @ [0x27]
                        @ ascii '')"''
                      else []);
             coverClass = (if safeCover \<noteq> [] then ascii '' company-cover'' else []);
             coordsAttr = (case (lat company, lng company) of
                             (Some a, Some b) \<Rightarrow>
                              ascii '' data-lat="''
                              @ a
                              @ ascii ''" data-lng="''
                              @ b
                              @ ascii ''"''
                           | _ \<Rightarrow> []);
             ind = trim (orEmpty (industry company));
             industryAttr = (if ind \<noteq> []
                        then ascii '' data-industry="''
                           @ escapeHtml (Some ind)
                           @ ascii ''"''
                        else []);
             resolvedCategory = (if ind = foodIndustry
                                 then classifyFoodCategory (toLowerCase e) company else []);
             categoryAttr = (if resolvedCategory \<noteq> []
                        then ascii '' data-category="''
                           @ escapeHtml (Some resolvedCategory)
                           @ ascii ''"''
                        else [])
         in Inr (ascii ''<a class="company-card company-link''
               @ coverClass
               @ ascii ''" href="/company/''
               @ safeSlug
               @ ascii ''"''
               @ coverStyle
               @ coordsAttr
               @ industryAttr
               @ categoryAttr
               @ ascii ''>''
               @ ascii ''<h4>''
               @ safeName
               @ ascii ''</h4>''
               @ ascii ''<p class="company-desc">''
               @ safeSummary
               @ ascii ''</p>''
               @ ascii ''<div class="company-distance" data-distance hidden></div>''
               @ (if hasContact
                then ascii ''<div class="company-contact"><span>''
                     @ [0x5FAE, 0x4FE1]
                     @ ascii ''/WhatsApp''
                     @ [0xFF1A]
                     @ safeContact
                     @ ascii ''</span></div>''
                else [])
               @ ascii ''</a>'')))\<close>

definition renderCompanyCards :: "env \<Rightarrow> company list \<Rightarrow> jserror + jsstring" where
  "renderCompanyCards e items = bindE (mapE (renderCompanyCard e) items) (\<lambda>cards. Inr (concat cards))"


text \<open>
  \<open>navHtml\<close>: \<^verbatim>\<open>cityMap.get(city).count\<close> is a TypeError for a city without an entry.
\<close>

definition navHtml :: "env \<Rightarrow> grouping \<Rightarrow> nat \<Rightarrow> jserror + jsstring" where
  "navHtml e g totalCount =
     bindE (mapE (\<lambda>(index, cty).
                    case map_of (cityMap g) cty of
                      None \<Rightarrow> Inl TypeError
                    | Some entry \<Rightarrow> Inr (navCityButton (toLowerCase e) index cty (count entry)))
                 (indexed (orderedCities g)))
       (\<lambda>buttons. Inr (concat (navAllButton totalCount # buttons)))"


text \<open>The filter buttons of one city.\<close>

definition categoryButton :: "jsstring \<Rightarrow> jsstring" where
  \<open>categoryButton cat =
     ascii ''<button class="filter-pill" type="button" data-filter="''
     @ escapeHtml (Some cat)
     @ ascii ''" data-filter-scope="category">''
     @ escapeHtml (Some cat)
     @ ascii ''</button>''\<close>

definition industryButton :: "jsstring \<Rightarrow> jsstring" where
  \<open>industryButton ind =
     ascii ''<button class="filter-pill" type="button" data-filter="''
     @ escapeHtml (Some ind)
     @ ascii ''" data-filter-scope="industry">''
     @ escapeHtml (Some ind)
     @ ascii ''</button>''\<close>

definition buildCityToolsHtml ::
  "env \<Rightarrow> cityEntry \<Rightarrow> (jsstring \<times> company list) list \<Rightarrow> jsstring" where
  \<open>buildCityToolsHtml e entry industryEntries =
     (let foodItems = (case map_of (industries entry) foodIndustry of
                         Some items \<Rightarrow> items | None \<Rightarrow> []);
          counted = map (classifyFoodCategory (toLowerCase e)) foodItems;
          categoryButtons =
            concat (map categoryButton (filter (\<lambda>cat. cat \<in> set counted) foodCategoryPriority));
          industryButtons =
            concat (map industryButton
                      (filter (\<lambda>ind. ind \<noteq> foodIndustry) (map fst industryEntries)))
      in    ascii ''<div class="city-tools" data-city-tools data-food-industry="''
            @ escapeHtml (Some foodIndustry)
            @ ascii ''">''
            @ ascii ''<div class="industry-sort" role="group" aria-label="''
            @ [0x6392, 0x5E8F]
            @ ascii ''">''
            @ ascii ''<span class="tools-label">''
            @ [0x6392, 0x5E8F]
            @ ascii ''</span>''
            @ ascii ''<button class="sort-pill is-active" type="button" data-sort="default">''
            @ [0x9ED8, 0x8BA4]
            @ ascii ''</button>''
            @ ascii ''<button class="sort-pill" type="button" data-sort="distance">''
            @ [0x79BB, 0x6211, 0x6700, 0x8FD1]
            @ ascii ''</button>''
            @ ascii ''</div>''
            @ ascii ''<div class="industry-filters" role="group" aria-label="''
            @ [0x95E8, 0x5E97, 0x7B5B, 0x9009]
            @ ascii ''">''
            @ ascii ''<span class="tools-label">''
            @ [0x7B5B, 0x9009]
            @ ascii ''</span>''
            @ ascii ''<button class="filter-pill is-active" type="button" data-filter="all">''
            @ [0x5168, 0x90E8]
            @ ascii ''</button>''
            @ categoryButtons
            @ industryButtons
            @ ascii ''</div>''
            @ ascii ''</div>'')\<close>

definition buildCityServiceHtml :: jsstring where
  \<open>buildCityServiceHtml =
     ascii ''<div class="city-service">''
     @ ascii ''<div class="city-service-head">''
     @ ascii ''<h3>''
     @ [0x4F01, 0x4E1A, 0x670D, 0x52A1]
     @ ascii ''</h3>''
     @ ascii ''<span>''
     @ [0x4F01, 0x4E1A, 0x5E7F, 0x544A, 0x62DB, 0x79DF]
     @ ascii ''</span>''
     @ ascii ''</div>''
     @ ascii ''<div class="city-service-grid">''
     @ ascii ''<div class="service-card"><strong>''
     @ [0x4F01, 0x4E1A, 0x5E7F, 0x544A, 0x62DB, 0x79DF]
     @ ascii ''</strong><p>''
     @ [0x628A, 0x4F60, 0x7684, 0x4F01, 0x4E1A, 0x653E, 0x4E0A, 0x6765]
     @ ascii ''</p></div>''
     @ ascii ''<div class="service-card"><strong>''
     @ [0x4F01, 0x4E1A, 0x5E7F, 0x544A, 0x62DB, 0x79DF]
     @ ascii ''</strong><p>''
     @ [0x628A, 0x4F60, 0x7684, 0x4F01, 0x4E1A, 0x653E, 0x4E0A, 0x6765]
     @ ascii ''</p></div>''
     @ ascii ''<div class="service-card"><strong>''
     @ [0x4F01, 0x4E1A, 0x5E7F, 0x544A, 0x62DB, 0x79DF]
     @ ascii ''</strong><p>''
     @ [0x628A, 0x4F60, 0x7684, 0x4F01, 0x4E1A, 0x653E, 0x4E0A, 0x6765]
     @ ascii ''</p></div>''
     @ ascii ''</div>''
     @ ascii ''</div>''\<close>

text \<open>
  The food industry is split once more, by category: the same grouping and the same sort
  as for the cities, with the six categories pinned in their order.
\<close>

record categoryGrouping =
  categoryOrder :: "jsstring list"
  categoryIndex :: "(jsstring \<times> nat) list"
  categoryMap :: "(jsstring \<times> company list) list"

definition categoryPriority :: "(jsstring \<times> nat) list" where
  "categoryPriority = zip foodCategoryPriority [0..<length foodCategoryPriority]"

definition addToCategory ::
  "(jsstring \<Rightarrow> jsstring) \<Rightarrow> categoryGrouping \<Rightarrow> company \<Rightarrow> categoryGrouping" where
  "addToCategory lc g company =
     (let cat = orElse (classifyFoodCategory lc company) otherLabel;
          g1 = (if map_of (categoryMap g) cat = None
                then \<lparr>categoryOrder = categoryOrder g @ [cat],
                      categoryIndex = categoryIndex g @ [(cat, length (categoryOrder g))],
                      categoryMap = categoryMap g @ [(cat, [])]\<rparr>
                else g)
      in g1\<lparr>categoryMap := AList.map_entry cat (\<lambda>items. items @ [company]) (categoryMap g1)\<rparr>)"

definition groupByCategory :: "(jsstring \<Rightarrow> jsstring) \<Rightarrow> company list \<Rightarrow> categoryGrouping" where
  "groupByCategory lc items =
     foldl (addToCategory lc) \<lparr>categoryOrder = [], categoryIndex = [], categoryMap = []\<rparr> items"

definition orderedCategories :: "categoryGrouping \<Rightarrow> jsstring list" where
  "orderedCategories g =
     arraySort (compareByPriority categoryPriority (categoryIndex g)) (categoryOrder g)"

definition categorySubgroup :: "env \<Rightarrow> categoryGrouping \<Rightarrow> jsstring \<Rightarrow> jserror + jsstring" where
  \<open>categorySubgroup e g cat =
     (let categoryItems = (case map_of (categoryMap g) cat of
                             Some items \<Rightarrow> items | None \<Rightarrow> [])
      in bindE (renderCompanyCards e categoryItems) (\<lambda>cardsHtml.
           Inr (ascii ''<div class="industry-subgroup" data-category="''
                 @ escapeHtml (Some cat)
                 @ ascii ''">''
                 @ ascii ''<div class="industry-subhead">''
                 @ ascii ''<h4>''
                 @ escapeHtml (Some cat)
                 @ ascii ''</h4>''
                 @ ascii ''<span class="industry-count">''
                 @ decimal (length categoryItems)
                 @ ascii '' ''
                 @ [0x5BB6]
                 @ ascii ''</span>''
                 @ ascii ''</div>''
                 @ ascii ''<div class="company-grid">''
                 @ cardsHtml
                 @ ascii ''</div>''
                 @ ascii ''</div>'')))\<close>

text \<open>One entry of \<^verbatim>\<open>industryEntries.map\<close>.\<close>

definition industryBlock :: "env \<Rightarrow> jsstring \<times> company list \<Rightarrow> jserror + jsstring" where
  \<open>industryBlock e entry =
     (case entry of (ind, items) \<Rightarrow>
        if ind = foodIndustry then
          (let g = groupByCategory (toLowerCase e) items
           in bindE (mapE (categorySubgroup e g) (orderedCategories g)) (\<lambda>categoriesHtml.
           Inr (ascii ''<div class="industry-block" data-industry="''
                 @ escapeHtml (Some ind)
                 @ ascii ''">''
                 @ ascii ''<div class="industry-head">''
                 @ ascii ''<h3>''
                 @ escapeHtml (Some ind)
                 @ ascii ''</h3>''
                 @ ascii ''<span class="industry-count">''
                 @ decimal (length items)
                 @ ascii '' ''
                 @ [0x5BB6]
                 @ ascii ''</span>''
                 @ ascii ''</div>''
                 @ ascii ''<div class="industry-subgroups">''
                 @ concat categoriesHtml
                 @ ascii ''</div>''
                 @ ascii ''</div>'')))
        else
          bindE (renderCompanyCards e items) (\<lambda>cardsHtml.
         Inr (ascii ''<div class="industry-block" data-industry="''
               @ escapeHtml (Some ind)
               @ ascii ''">''
               @ ascii ''<div class="industry-head">''
               @ ascii ''<h3>''
               @ escapeHtml (Some ind)
               @ ascii ''</h3>''
               @ ascii ''<span class="industry-count">''
               @ decimal (length items)
               @ ascii '' ''
               @ [0x5BB6]
               @ ascii ''</span>''
               @ ascii ''</div>''
               @ ascii ''<div class="company-grid">''
               @ cardsHtml
               @ ascii ''</div>''
               @ ascii ''</div>'')))\<close>

text \<open>One entry of \<^verbatim>\<open>orderedCities.map\<close> for \<open>sectionsHtml\<close>.\<close>

definition citySection :: "env \<Rightarrow> grouping \<Rightarrow> nat \<times> jsstring \<Rightarrow> jserror + jsstring" where
  \<open>citySection e g indexedCity =
     (case indexedCity of (index, cty) \<Rightarrow>
        (case map_of (cityMap g) cty of
           None \<Rightarrow> Inl TypeError
         | Some entry \<Rightarrow>
             bindE (mapE (industryBlock e) (industries entry)) (\<lambda>industriesHtml.
             Inr (ascii ''<section class="city-section" id="''
                   @ sectionId (toLowerCase e) index cty
                   @ ascii ''" data-city="''
                   @ escapeHtml (Some cty)
                   @ ascii ''">''
                   @ ascii ''<div class="city-head">''
                   @ ascii ''<h2>''
                   @ escapeHtml (Some cty)
                   @ ascii ''</h2>''
                   @ ascii ''</div>''
                   @ buildCityToolsHtml e entry (industries entry)
                   @ buildCityServiceHtml
                   @ ascii ''<div class="city-body">''
                   @ concat industriesHtml
                   @ ascii ''</div>''
                   @ ascii ''</section>''))))\<close>

definition sectionsHtml :: "env \<Rightarrow> grouping \<Rightarrow> jserror + jsstring" where
  "sectionsHtml e g =
     bindE (mapE (citySection e g) (indexed (orderedCities g))) (\<lambda>sections. Inr (concat sections))"

text \<open>
  The options of a call: its own template and a filter, both optional. The filters the
  server passes are \<open>isRestaurantCompany\<close> and \<open>isEnterpriseCompany\<close>.
\<close>

record options =
  template :: "jsstring option"
  filterFn :: "(company \<Rightarrow> bool) option"

definition isRestaurantCompany :: "company \<Rightarrow> bool" where
  "isRestaurantCompany company \<longleftrightarrow> trim (orEmpty (industry company)) = foodIndustry"

text \<open>U+4E2D U+8D44 U+4F01 U+4E1A (Chinese-funded enterprise).\<close>

definition isEnterpriseCompany :: "company \<Rightarrow> bool" where
  "isEnterpriseCompany company \<longleftrightarrow> trim (orEmpty (industry company)) = [0x4E2D, 0x8D44, 0x4F01, 0x4E1A]"

definition NAV_MARK :: jsstring where
  "NAV_MARK = ascii ''<!--COMPANY_NAV-->''"

definition SECTIONS_MARK :: jsstring where
  "SECTIONS_MARK = ascii ''<!--COMPANY_SECTIONS-->''"

text \<open>
  \<open>buildCompaniesHtml\<close>. \<open>companiesTemplate\<close> is the partial read at start,
  \<open>allCompanies\<close> what \<open>loadCompaniesData()\<close> returns for this call.
\<close>

definition buildCompaniesHtml ::
  "env \<Rightarrow> jsstring \<Rightarrow> company list \<Rightarrow> options \<Rightarrow> jserror + jsstring" where
  \<open>buildCompaniesHtml e companiesTemplate allCompanies opts =
     (let tpl = orElse (orEmpty (template opts)) companiesTemplate
      in if tpl = [] then Inr []
         else
           let companies = (case filterFn opts of
                              Some keep \<Rightarrow> filter keep allCompanies
                            | None \<Rightarrow> allCompanies)
           in if companies = [] then
                Inr (replaceFirst SECTIONS_MARK
                       (ascii ''<p class="muted">''
             @ [0x6682, 0x65E0, 0x4F01, 0x4E1A, 0x6570, 0x636E, 0x3002]
             @ ascii ''</p>'')
                       (replaceFirst NAV_MARK [] tpl))
              else
                let g = groupCompanies companies
                in bindE (navHtml e g (length companies)) (\<lambda>nav.
                   bindE (sectionsHtml e g) (\<lambda>sections.
                     Inr (replaceFirst SECTIONS_MARK sections (replaceFirst NAV_MARK nav tpl)))))\<close>

section \<open>escapeHtml, one character at a time\<close>


section \<open>Words of the claims about the directory\<close>



text \<open>The distinct elements of a list, in the order of their first occurrence.\<close>

definition firstOccurrences :: "'a list \<Rightarrow> 'a list" where
  "firstOccurrences xs = rev (remdups (rev xs))"

text \<open>
  The order the claim describes: Mexico City, then Monterrey, each if present, then every
  other city in the order of first occurrence.
\<close>

definition pinnedFirst :: "jsstring list \<Rightarrow> jsstring list" where
  "pinnedFirst cities =
     filter (\<lambda>p. p \<in> set cities) [mexicoCity, monterrey]
     @ filter (\<lambda>c. c \<noteq> mexicoCity \<and> c \<noteq> monterrey) (firstOccurrences cities)"

text \<open>The number of companies of a list whose city, with the default, is the given one.\<close>

definition companiesIn :: "company list \<Rightarrow> jsstring \<Rightarrow> nat" where
  "companiesIn companies cty = length (filter (\<lambda>c. cityOf c = cty) companies)"

text \<open>
  The number the comparator of the cities orders by, written out: the priority of a
  pinned city, and for any other city two more than its index of first occurrence.
\<close>

definition firstSeenAt :: "jsstring list \<Rightarrow> jsstring \<Rightarrow> nat" where
  "firstSeenAt order c = (case map_of (zip order [0..<length order]) c of Some i \<Rightarrow> i | None \<Rightarrow> 0)"

definition cityRank :: "jsstring list \<Rightarrow> jsstring \<Rightarrow> nat" where
  "cityRank order c =
     (case map_of priorityCities c of Some p \<Rightarrow> p | None \<Rightarrow> 2 + firstSeenAt order c)"

chapter \<open>Properties\<close>

section \<open>Properties of the memory tier\<close>

lemma getCachedValue_live:
  "cache key = Some e \<Longrightarrow> expiresAt e > now \<Longrightarrow>
   getCachedValue cache key now = (Some (entry_value e), cache)"
  by (simp add: getCachedValue_def)

lemma getCachedValue_expired:
  "cache key = Some e \<Longrightarrow> \<not> expiresAt e > now \<Longrightarrow>
   getCachedValue cache key now = (None, cache(key := None))"
  by (simp add: getCachedValue_def)

lemma getCachedValue_absent:
  "cache key = None \<Longrightarrow> getCachedValue cache key now = (None, cache)"
  by (simp add: getCachedValue_def)

text \<open>
  Claim C5. \<open>setCachedValue\<close> at time \<open>t0\<close> stores the value with
  \<open>expiresAt = t0 + 7 days\<close> (604800000 ms). A later \<open>getCachedValue\<close> at time \<open>t\<close>
  returns the stored value if and only if \<open>expiresAt\<close> is strictly greater than \<open>t\<close>;
  otherwise it returns null and deletes the key, so that the next read, at any time,
  finds the key absent and returns null again.
\<close>

theorem memory_cache_ttl:
  fixes cache :: "('k, 'v) cache" and key :: 'k and v :: 'v and t0 t t' :: int
  defines "stored \<equiv> setCachedValue cache key v t0"
  shows "stored key = Some \<lparr>entry_value = v, expiresAt = t0 + 604800000\<rparr>
       \<and> (fst (getCachedValue stored key t) = Some v \<longleftrightarrow> t0 + 604800000 > t)
       \<and> (\<not> t0 + 604800000 > t \<longrightarrow>
            getCachedValue stored key t = (None, stored(key := None))
          \<and> snd (getCachedValue stored key t) key = None
          \<and> fst (getCachedValue (snd (getCachedValue stored key t)) key t') = None)"
  by (simp add: stored_def setCachedValue_def getCachedValue_def PLACES_CACHE_TTL_MS_def)

theorem memory_cache_ttl_witness:
  "\<not> (0::int) + 604800000 > 604800000
   \<and> getCachedValue (setCachedValue (Map.empty :: (nat, nat) cache) 1 5 0) 1 604800000
       = (None, (setCachedValue Map.empty 1 5 0)(1 := None))
   \<and> fst (getCachedValue (setCachedValue (Map.empty :: (nat, nat) cache) 1 5 0) 1 604799999)
       = Some 5"
  using memory_cache_ttl [of "Map.empty :: (nat, nat) cache" 1 5 0 604800000 0]
    memory_cache_ttl [of "Map.empty :: (nat, nat) cache" 1 5 0 604799999 0]
  by simp

section \<open>The patterns and the classifier\<close>

lemma takeWhile_prefix_len:
  "list_all P ws \<Longrightarrow> length ws \<le> length (takeWhile P (ws @ t))"
  by (induction ws) auto

lemma take_all_takeWhile:
  "k \<le> length (takeWhile P s) \<Longrightarrow> list_all P (take k s)"
proof (induction s arbitrary: k)
  case Nil
  then show ?case by simp
next
  case (Cons a s)
  then show ?case by (cases k) (auto split: if_splits)
qed

lemma matchPrefix_WhiteSpaces:
  "t \<in> set (matchPrefix WhiteSpaces s) \<longleftrightarrow> (\<exists>ws. list_all isWhiteSpace ws \<and> s = ws @ t)"
proof
  assume "t \<in> set (matchPrefix WhiteSpaces s)"
  then have "t \<in> (\<lambda>k. drop k s) ` {0..<Suc (length (takeWhile isWhiteSpace s))}"
    by (simp del: upt_Suc)
  then obtain k where k: "k \<le> length (takeWhile isWhiteSpace s)" and t: "t = drop k s"
    by (auto simp: less_Suc_eq_le)
  have "list_all isWhiteSpace (take k s)" using k by (rule take_all_takeWhile)
  moreover have "s = take k s @ t" using t by simp
  ultimately show "\<exists>ws. list_all isWhiteSpace ws \<and> s = ws @ t" by blast
next
  assume "\<exists>ws. list_all isWhiteSpace ws \<and> s = ws @ t"
  then obtain ws where ws: "list_all isWhiteSpace ws" and s: "s = ws @ t" by blast
  have "length ws \<le> length (takeWhile isWhiteSpace s)"
    unfolding s using ws by (rule takeWhile_prefix_len)
  moreover have "t = drop (length ws) s" using s by simp
  ultimately show "t \<in> set (matchPrefix WhiteSpaces s)"
    by (auto simp: image_iff less_Suc_eq_le simp del: upt_Suc intro!: bexI [of _ "length ws"])
qed

lemma matchPrefix_lang:
  "t \<in> set (matchPrefix r s) \<longleftrightarrow> (\<exists>w \<in> lang r. s = w @ t)"
proof (induction r arbitrary: s t)
  case Eps
  show ?case by auto
next
  case (Chr p)
  show ?case by (cases s) auto
next
  case WhiteSpaces
  show ?case using matchPrefix_WhiteSpaces [of t s] by auto
next
  case (Seq a b)
  have "t \<in> set (matchPrefix (Seq a b) s) \<longleftrightarrow>
        (\<exists>m \<in> set (matchPrefix a s). t \<in> set (matchPrefix b m))"
    by auto
  also have "\<dots> \<longleftrightarrow> (\<exists>m. (\<exists>u \<in> lang a. s = u @ m) \<and> (\<exists>v \<in> lang b. m = v @ t))"
    by (simp only: Bex_def Seq.IH)
  also have "\<dots> \<longleftrightarrow> (\<exists>w \<in> lang (Seq a b). s = w @ t)"
    by fastforce
  finally show ?case .
next
  case (Alt a b)
  then show ?case by auto
qed

lemma regexTest_mentions: "regexTest r s \<longleftrightarrow> mentions (lang r) s"
proof -
  have ne: "matchPrefix r t \<noteq> [] \<longleftrightarrow> (\<exists>m. m \<in> set (matchPrefix r t))" for t
    by (cases "matchPrefix r t") auto
  have "regexTest r s \<longleftrightarrow> (\<exists>t. suffix t s \<and> (\<exists>m. m \<in> set (matchPrefix r t)))"
    unfolding regexTest_def list_ex_iff ne by (auto simp: in_set_suffixes)
  also have "\<dots> \<longleftrightarrow> (\<exists>pre t m. s = pre @ t \<and> (\<exists>w \<in> lang r. t = w @ m))"
    unfolding matchPrefix_lang suffix_def by blast
  also have "\<dots> \<longleftrightarrow> mentions (lang r) s"
    unfolding mentions_def by blast
  finally show ?thesis .
qed

lemma lang_lit: "lang (lit w) = keywordForms w"
proof (induction w)
  case Nil
  show ?case by (auto simp: lit_def keywordForms_def)
next
  case (Cons c w)
  have step: "lit (c # w) = Seq (Chr c) (lit w)" by (simp add: lit_def)
  show ?case
  proof (rule set_eqI)
    fix z
    have "z \<in> lang (lit (c # w)) \<longleftrightarrow> (\<exists>x v. z = x # v \<and> ciEq c x \<and> v \<in> lang (lit w))"
      unfolding step
      apply auto
      subgoal for x v by (rule exI [of _ "[x]"]) simp
      done
    also have "\<dots> \<longleftrightarrow> z \<in> keywordForms (c # w)"
      unfolding Cons.IH keywordForms_def by (auto simp: list_all2_Cons1)
    finally show "z \<in> lang (lit (c # w)) \<longleftrightarrow> z \<in> keywordForms (c # w)" .
  qed
qed

lemma lang_spaced:
  "lang (Seq (lit a) (Seq WhiteSpaces (lit b))) = spacedForms a b"
  by (auto simp: lang_lit spacedForms_def)

lemma lang_hotpotRe: "lang hotpotRe = hotpotKeywords"
  unfolding hotpotRe_def hotpotKeywords_def alts.simps lang.simps(5) lang_spaced lang_lit
  by (simp add: Un_assoc)

lemma lang_noodleRe: "lang noodleRe = noodleKeywords"
  unfolding noodleRe_def noodleKeywords_def alts.simps lang.simps(5) lang_lit
  by (simp add: Un_assoc)

lemma lang_bbqRe: "lang bbqRe = bbqKeywords"
  unfolding bbqRe_def bbqKeywords_def alts.simps lang.simps(5) lang_lit
  by (simp add: Un_assoc)

text \<open>
  Claim C2. The classifier inside \<open>buildCompaniesHtml\<close> returns the trimmed \<open>category\<close>
  when that is not empty; otherwise it looks, in the lower-cased \<open>name\<close>, a space and
  \<open>summary\<close>, for a hot-pot word first, then a noodle-shop word, then a barbecue word, and
  returns the category of the first kind found, or "zhongcan" (Chinese food) when none is
  found. The company \<open>{slug: "abc", name: "Abc Noodles", industry: (food), summary:
  U+725B U+8089 U+9762}\<close> with no category is classified as U+9762 U+9986 (noodle shop).
\<close>

theorem classifyFoodCategory_meets_spec:
  "classifyFoodCategory lc company = classifyFoodCategory_spec lc company
   \<and> classifyFoodCategory asciiLower
        \<lparr>slug = Some (ascii ''abc''), name = Some (ascii ''Abc Noodles''),
         summary = Some [0x725B, 0x8089, 0x9762], city = None, industry = Some foodIndustry,
         category = None, placeId = None, place_id = None, contact = None, cover = None,
         mapQuery = None, lat = None, lng = None\<rparr> = [0x9762, 0x9986]"
proof
  show "classifyFoodCategory lc company = classifyFoodCategory_spec lc company"
    by (simp add: classifyFoodCategory_def classifyFoodCategory_spec_def classifierText_def
        regexTest_mentions lang_hotpotRe lang_noodleRe lang_bbqRe Let_def ascii_def)
next
  show "classifyFoodCategory asciiLower
        \<lparr>slug = Some (ascii ''abc''), name = Some (ascii ''Abc Noodles''),
         summary = Some [0x725B, 0x8089, 0x9762], city = None, industry = Some foodIndustry,
         category = None, placeId = None, place_id = None, contact = None, cover = None,
         mapQuery = None, lat = None, lng = None\<rparr> = [0x9762, 0x9986]"
    by (simp add: classifyFoodCategory_def classifierText_def orEmpty_def trim_def
        asciiLower_def ascii_def regexTest_def hotpotRe_def noodleRe_def lit_def ciEq_def
        isAsciiLower_def isWhiteSpace_def cat_mianguan_def)
qed

text \<open>
  Claim C9 fails on the code. A food company named U+5976 U+8336 U+5E97 (a milk-tea shop),
  with no category and no summary, is "zhongcan" (Chinese food) for the classifier
  inside \<open>buildCompaniesHtml\<close> and "yinpin" (drinks) for
  \<open>classifyFoodCategoryForDirectory\<close>: only the latter tries the drinks and the
  supermarket patterns.
\<close>

theorem classifiers_disagree_on_milk_tea:
  "classifyFoodCategory asciiLower
     \<lparr>slug = Some (ascii ''tea''), name = Some [0x5976, 0x8336, 0x5E97], summary = None,
      city = None, industry = Some foodIndustry, category = None, placeId = None,
      place_id = None, contact = None, cover = None, mapQuery = None, lat = None,
      lng = None\<rparr> = [0x4E2D, 0x9910]
   \<and> classifyFoodCategoryForDirectory asciiLower
     \<lparr>slug = Some (ascii ''tea''), name = Some [0x5976, 0x8336, 0x5E97], summary = None,
      city = None, industry = Some foodIndustry, category = None, placeId = None,
      place_id = None, contact = None, cover = None, mapQuery = None, lat = None,
      lng = None\<rparr> = [0x996E, 0x54C1]"
  by (simp add: classifyFoodCategory_def classifyFoodCategoryForDirectory_def
      classifierText_def orEmpty_def trim_def asciiLower_def ascii_def regexTest_def
      hotpotRe_def noodleRe_def bbqRe_def drinksRe_def lit_def ciEq_def isAsciiLower_def
      isWhiteSpace_def cat_zhongcan_def cat_yinpin_def)

section \<open>The places provider: failures and the disabled provider\<close>

lemma fetchPlaceIdByQuery_returns:
  "\<exists>r. fst (fetchPlaceIdByQuery e w st q) = Inr r"
  by (simp add: fetchPlaceIdByQuery_def Let_def split: prod.split sum.split)

lemma getProp_not_object:
  "(case data of JObj kvs \<Rightarrow> False | _ \<Rightarrow> True) \<Longrightarrow>
   getProp (Some data) p = (if data = JNull then Inl TypeError else Inr None)"
  by (cases data) simp_all

lemma liveCallFails_cases:
  "liveCallFails r \<Longrightarrow>
   (\<exists>err. fetchJson r = Inl err) \<or> (\<exists>data. fetchJson r = Inr data \<and> (case data of JObj kvs \<Rightarrow> False | _ \<Rightarrow> True))"
  by (cases r) (auto simp: liveCallFails_def fetchJson_def)

lemma placeIdOf_None: "placeIdOf None = Inr []"
  by (simp add: placeIdOf_def getPropOpt_def orValue_def toStr_def trim_def bindE_def)

lemma serpFindBody_fails:
  assumes "liveCallFails r \<or> noMatch r"
  shows "serpFindBody e r = Inr pid \<Longrightarrow> pid = []"
  using assms
proof
  assume "liveCallFails r" and "serpFindBody e r = Inr pid"
  with liveCallFails_cases [of r] show ?thesis
    by (auto simp: serpFindBody_def fetchSerpApiJson_def bindE_def Let_def getProp_not_object
        arrayOrEmpty_def first_def placeIdOf_None split: if_splits)
next
  assume "noMatch r" and s: "serpFindBody e r = Inr pid"
  then obtain ok kvs where r: "r = Response ok (JObj kvs)"
    and a: "arrayOrEmpty (map_of kvs (ascii ''local_results'')) = []"
    and b: "\<not> truthy (map_of kvs (ascii ''place_results''))"
    by (auto simp: noMatch_def split: http_reply.splits json.splits)
  show ?thesis using s
    by (cases ok) (simp_all add: r a b serpFindBody_def fetchSerpApiJson_def fetchJson_def bindE_def
        Let_def first_def placeIdOf_None split: if_splits)
qed

lemma googleFindBody_fails:
  assumes "liveCallFails r \<or> noMatch r"
  shows "googleFindBody r = Inr pid \<Longrightarrow> pid = []"
  using assms
proof
  assume "liveCallFails r" and "googleFindBody r = Inr pid"
  with liveCallFails_cases [of r] show ?thesis
    by (auto simp: googleFindBody_def bindE_def getProp_not_object split: if_splits)
next
  assume "noMatch r" and s: "googleFindBody r = Inr pid"
  then obtain ok kvs where r: "r = Response ok (JObj kvs)"
    and c: "arrayOrEmpty (map_of kvs (ascii ''candidates'')) = []"
    by (auto simp: noMatch_def split: http_reply.splits json.splits)
  show ?thesis
    using c s
    by (cases ok)
      (auto simp: r googleFindBody_def fetchJson_def bindE_def first_def arrayOrEmpty_def
        split: option.splits json.splits if_splits)
qed

lemma fetchPlaceIdByQuery_on_failure:
  assumes "liveCallFails (reply w) \<or> noMatch (reply w)"
    and "orEmpty (fst (getCachedValue (placeIdCache st) q (startTime w))) = []"
  shows "fst (fetchPlaceIdByQuery e w st q) = Inr []"
proof -
  obtain cached c1 where g: "getCachedValue (placeIdCache st) q (startTime w) = (cached, c1)"
    by (cases "getCachedValue (placeIdCache st) q (startTime w)")
  have miss: "orEmpty cached = []" using assms(2) g by simp
  show ?thesis
    unfolding fetchPlaceIdByQuery_def Let_def g prod.case
    using serpFindBody_fails [OF assms(1), of e] googleFindBody_fails [OF assms(1)] miss
    by (auto split: sum.split)
qed

lemma fetchPlaceDetailsLive_returns:
  "\<exists>r. fst (fetchPlaceDetailsLive e w st d pid q) = Inr r"
  by (simp add: fetchPlaceDetailsLive_def Let_def split: sum.split option.split)

lemma load_ignores_placesCache:
  "fst (loadPlaceDetailsDiskCache e (st\<lparr>placesCache := c\<rparr>)) = fst (loadPlaceDetailsDiskCache e st)"
  by (simp add: loadPlaceDetailsDiskCache_def Let_def)

lemma readMember_throws: "readMember e d pid = Inl err \<longleftrightarrow> d = DiskNull \<and> err = TypeError"
  by (cases d) (auto simp: readMember_def)

text \<open>
  \<open>fetchPlaceDetails\<close> lets an exception out exactly when it gets as far as the disk
  tier and the disk tier is null.
\<close>

lemma fetchPlaceDetails_throws_iff:
  "(\<exists>err. fst (fetchPlaceDetails e w st pid q) = Inl err)
   \<longleftrightarrow> isPlacesApiEnabled e \<and> pid \<noteq> []
       \<and> \<not> truthyValue (fst (getCachedValue (placesCache st) pid (startTime w)))
       \<and> fst (loadPlaceDetailsDiskCache e st) = DiskNull"
proof -
  obtain cached c1 where g: "getCachedValue (placesCache st) pid (startTime w) = (cached, c1)"
    by (cases "getCachedValue (placesCache st) pid (startTime w)")
  obtain disk st2 where l: "loadPlaceDetailsDiskCache e (st\<lparr>placesCache := c1\<rparr>) = (disk, st2)"
    by (cases "loadPlaceDetailsDiskCache e (st\<lparr>placesCache := c1\<rparr>)")
  have disk: "fst (loadPlaceDetailsDiskCache e st) = disk"
    using l load_ignores_placesCache [where e = e and st = st and c = c1] by simp
  have live: "fst (fetchPlaceDetailsLive e w st2 disk pid q) \<noteq> Inl err" for err
    using fetchPlaceDetailsLive_returns [of e w st2 disk pid q] by auto
  have eq: "fetchPlaceDetails e w st pid q =
      (if \<not> isPlacesApiEnabled e \<or> pid = [] then (Inr None, st)
       else if truthyValue cached then (Inr cached, st\<lparr>placesCache := c1\<rparr>)
       else case readMember e disk pid of
              Inl err \<Rightarrow> (Inl err, st2)
            | Inr None \<Rightarrow> fetchPlaceDetailsLive e w st2 disk pid q
            | Inr (Some d) \<Rightarrow>
                if truthyValue (Some d)
                then (Inr (Some d), st2\<lparr>placesCache := setCachedValue c1 pid d (startTime w)\<rparr>)
                else fetchPlaceDetailsLive e w st2 disk pid q)"
    by (simp add: fetchPlaceDetails_def g l Let_def)
  show ?thesis
  proof (cases "readMember e disk pid")
    case (Inl err)
    then have "disk = DiskNull" by (simp add: readMember_throws)
    with Inl show ?thesis unfolding eq disk by (simp add: g)
  next
    case (Inr x)
    then have "disk \<noteq> DiskNull" by (auto simp: readMember_def)
    with Inr show ?thesis unfolding eq disk
      by (cases x) (simp_all add: g live)
  qed
qed


lemma pickPlaceResult_not_object:
  "(case data of JObj kvs \<Rightarrow> False | _ \<Rightarrow> True) \<Longrightarrow> pickPlaceResult data pid = Inr None"
  by (cases data)
    (simp_all add: pickPlaceResult_def getPropOpt_def arrayOrEmpty_def orValue_def first_def bindE_def)

lemma details_bodies_not_object:
  assumes "fetchJson r = Inr data" and "case data of JObj kvs \<Rightarrow> False | _ \<Rightarrow> True"
  shows "searchapiDetailsBody e r pid \<noteq> Inr (Some v)"
    and "serpapiDetailsBody e r pid \<noteq> Inr (Some v)"
    and "googleDetailsBody r \<noteq> Inr (Some v)"
  using assms
  by (cases data;
      simp add: searchapiDetailsBody_def serpapiDetailsBody_def googleDetailsBody_def
        fetchSerpApiJson_def bindE_def Let_def pickPlaceResult_not_object mapSerpPlaceResult_def)+

lemma details_bodies_throw:
  assumes "fetchJson r = Inl err"
  shows "searchapiDetailsBody e r pid \<noteq> Inr (Some v)"
    and "serpapiDetailsBody e r pid \<noteq> Inr (Some v)"
    and "googleDetailsBody r \<noteq> Inr (Some v)"
  using assms
  by (simp_all add: searchapiDetailsBody_def serpapiDetailsBody_def googleDetailsBody_def
        fetchSerpApiJson_def bindE_def Let_def)

lemma details_bodies_fail:
  assumes "liveCallFails r"
  shows "searchapiDetailsBody e r pid \<noteq> Inr (Some v)"
    and "serpapiDetailsBody e r pid \<noteq> Inr (Some v)"
    and "googleDetailsBody r \<noteq> Inr (Some v)"
proof -
  show "searchapiDetailsBody e r pid \<noteq> Inr (Some v)"
    by (metis liveCallFails_cases [OF assms] details_bodies_throw(1) details_bodies_not_object(1))
  show "serpapiDetailsBody e r pid \<noteq> Inr (Some v)"
    by (metis liveCallFails_cases [OF assms] details_bodies_throw(2) details_bodies_not_object(2))
  show "googleDetailsBody r \<noteq> Inr (Some v)"
    by (metis liveCallFails_cases [OF assms] details_bodies_throw(3) details_bodies_not_object(3))
qed

lemma fetchPlaceDetailsLive_fails:
  assumes "liveCallFails (reply w)"
  shows "fetchPlaceDetailsLive e w st d pid q = (Inr None, st)"
proof -
  have fin: "(case b of Inl err \<Rightarrow> (Inr None, st) | Inr None \<Rightarrow> (Inr None, st)
              | Inr (Some v) \<Rightarrow> f v) = (Inr None, st)"
    if "\<And>v. b \<noteq> Inr (Some v)"
    for b :: "jserror + json option" and f :: "json \<Rightarrow> (jserror + jsvalue option) \<times> places_state"
  proof (cases b)
    case (Inl err)
    then show ?thesis by simp
  next
    case (Inr x)
    with that show ?thesis by (cases x) auto
  qed
  show ?thesis
    unfolding fetchPlaceDetailsLive_def Let_def
    by (simp add: fin [OF details_bodies_fail(1) [OF assms]]
        fin [OF details_bodies_fail(2) [OF assms]] fin [OF details_bodies_fail(3) [OF assms]])
qed

text \<open>
  When the live call fails and the call gets as far as the disk tier, the outcome of
  \<open>fetchPlaceDetails\<close> is that of the read \<^verbatim>\<open>diskCache[placeId]\<close>.
\<close>

lemma fetchPlaceDetails_on_failure:
  assumes "liveCallFails (reply w)" "isPlacesApiEnabled e" "pid \<noteq> []"
    and "\<not> truthyValue (fst (getCachedValue (placesCache st) pid (startTime w)))"
  shows "fst (fetchPlaceDetails e w st pid q)
         = (case readMember e (fst (loadPlaceDetailsDiskCache e st)) pid of
              Inl err \<Rightarrow> Inl err
            | Inr d \<Rightarrow> Inr (orNull d))"
proof -
  obtain cached c1 where g: "getCachedValue (placesCache st) pid (startTime w) = (cached, c1)"
    by (cases "getCachedValue (placesCache st) pid (startTime w)")
  obtain disk st2 where l: "loadPlaceDetailsDiskCache e (st\<lparr>placesCache := c1\<rparr>) = (disk, st2)"
    by (cases "loadPlaceDetailsDiskCache e (st\<lparr>placesCache := c1\<rparr>)")
  have disk: "fst (loadPlaceDetailsDiskCache e st) = disk"
    using l load_ignores_placesCache [where e = e and st = st and c = c1] by simp
  have miss: "\<not> truthyValue cached" using assms(4) g by simp
  show ?thesis
    unfolding fetchPlaceDetails_def disk
    using assms(2,3) miss
    by (simp add: g l fetchPlaceDetailsLive_fails [OF assms(1)] orNull_def
        split: sum.splits option.splits)
qed

lemma fetchPlaceDetails_reads_disk:
  assumes "isPlacesApiEnabled e" "pid \<noteq> []"
    and "\<not> truthyValue (fst (getCachedValue (placesCache st) pid (startTime w)))"
  shows "readMember e (fst (loadPlaceDetailsDiskCache e st)) pid = Inl err
         \<Longrightarrow> fst (fetchPlaceDetails e w st pid q) = Inl err"
    and "readMember e (fst (loadPlaceDetailsDiskCache e st)) pid = Inr (Some d) \<Longrightarrow> truthyValue (Some d)
         \<Longrightarrow> fst (fetchPlaceDetails e w st pid q) = Inr (Some d)"
proof -
  obtain cached c1 where g: "getCachedValue (placesCache st) pid (startTime w) = (cached, c1)"
    by (cases "getCachedValue (placesCache st) pid (startTime w)")
  obtain disk st2 where l: "loadPlaceDetailsDiskCache e (st\<lparr>placesCache := c1\<rparr>) = (disk, st2)"
    by (cases "loadPlaceDetailsDiskCache e (st\<lparr>placesCache := c1\<rparr>)")
  have disk: "fst (loadPlaceDetailsDiskCache e st) = disk"
    using l load_ignores_placesCache [where e = e and st = st and c = c1] by simp
  have miss: "\<not> truthyValue cached" using assms(3) g by simp
  show "readMember e (fst (loadPlaceDetailsDiskCache e st)) pid = Inl err
         \<Longrightarrow> fst (fetchPlaceDetails e w st pid q) = Inl err"
    unfolding fetchPlaceDetails_def disk using assms(1,2) miss by (simp add: g l)
  show "readMember e (fst (loadPlaceDetailsDiskCache e st)) pid = Inr (Some d) \<Longrightarrow> truthyValue (Some d)
         \<Longrightarrow> fst (fetchPlaceDetails e w st pid q) = Inr (Some d)"
    unfolding fetchPlaceDetails_def disk using assms(1,2) miss by (simp add: g l)
qed

text \<open>
  Claim C4 fails on the code. The read \<^verbatim>\<open>diskCache[placeId]\<close> of \<open>fetchPlaceDetails\<close>
  stands outside every \<^verbatim>\<open>try\<close> block and goes through the prototype chain. Whatever
  the provider answers, when the call gets as far as the disk tier (provider enabled, an
  id given, no live memory entry): if the disk tier is null, as it is when the file holds
  \<^verbatim>\<open>null\<close>, a TypeError leaves \<open>fetchPlaceDetails\<close>; and if the disk tier is an object with
  no entry for an id that names a member of \<^verbatim>\<open>Object.prototype\<close>, that member is
  returned, where the claim says null.
\<close>

theorem fetchPlaceDetails_disk_read_unguarded:
  assumes "isPlacesApiEnabled e" and "pid \<noteq> []"
    and "\<not> truthyValue (fst (getCachedValue (placesCache st) pid (startTime w)))"
  shows "(fst (loadPlaceDetailsDiskCache e st) = DiskNull
            \<longrightarrow> fst (fetchPlaceDetails e w st pid q) = Inl TypeError)
       \<and> ((\<exists>kvs. fst (loadPlaceDetailsDiskCache e st) = DiskObject kvs)
            \<and> diskEntry (fst (loadPlaceDetailsDiskCache e st)) pid = None
            \<and> pid \<in> set objectPrototypeNames
            \<longrightarrow> fst (fetchPlaceDetails e w st pid q) = Inr (Some (Inherited pid)))"
proof (intro conjI impI)
  assume "fst (loadPlaceDetailsDiskCache e st) = DiskNull"
  then have "readMember e (fst (loadPlaceDetailsDiskCache e st)) pid = Inl TypeError"
    by (simp add: readMember_def)
  then show "fst (fetchPlaceDetails e w st pid q) = Inl TypeError"
    by (rule fetchPlaceDetails_reads_disk(1) [OF assms])
next
  assume a: "(\<exists>kvs. fst (loadPlaceDetailsDiskCache e st) = DiskObject kvs)
            \<and> diskEntry (fst (loadPlaceDetailsDiskCache e st)) pid = None
            \<and> pid \<in> set objectPrototypeNames"
  then have "readMember e (fst (loadPlaceDetailsDiskCache e st)) pid = Inr (Some (Inherited pid))"
    by (auto simp: readMember_def diskEntry_def)
  then show "fst (fetchPlaceDetails e w st pid q) = Inr (Some (Inherited pid))"
    by (rule fetchPlaceDetails_reads_disk(2) [OF assms]) (simp add: truthyValue_def)
qed

theorem fetchPlaceDetails_disk_read_unguarded_witness:
  "liveCallFails (reply worldDown)
   \<and> isPlacesApiEnabled envNullFile
   \<and> fst (loadPlaceDetailsDiskCache envNullFile freshState) = DiskNull
   \<and> fst (fetchPlaceDetails envNullFile worldDown freshState (ascii ''p1'') []) = Inl TypeError
   \<and> isPlacesApiEnabled envGoogle
   \<and> diskEntry (fst (loadPlaceDetailsDiskCache envGoogle freshState)) (ascii ''constructor'') = None
   \<and> fst (fetchPlaceDetails envGoogle worldDown freshState (ascii ''constructor'') [])
       = Inr (Some (Inherited (ascii ''constructor'')))"
  using fetchPlaceDetails_disk_read_unguarded
      [of envNullFile "ascii ''p1''" freshState worldDown "[]"]
    fetchPlaceDetails_disk_read_unguarded
      [of envGoogle "ascii ''constructor''" freshState worldDown "[]"]
  by (simp add: liveCallFails_def worldDown_def isPlacesApiEnabled_def envGoogle_def
      envNullFile_def freshState_def getCachedValue_def loadPlaceDetailsDiskCache_def
      tierTruthy_def parsedTier_def diskEntry_def truthyValue_def objectPrototypeNames_def
      ascii_def placeP1_def Let_def)

text \<open>
  Claim C3 fails as stated: with the provider disabled, \<open>fetchPlaceDetails\<close> returns
  null at its first line, also for an id that has a disk entry.
\<close>

theorem fetchPlaceDetails_disabled_ignores_disk:
  "\<not> isPlacesApiEnabled envDisabled
   \<and> diskEntry (fst (loadPlaceDetailsDiskCache envDisabled freshState)) (ascii ''p1'')
       = Some (Json placeP1)
   \<and> fst (fetchPlaceDetails envDisabled worldDown freshState (ascii ''p1'') []) = Inr None
   \<and> fst (fetchPlaceDetails envDisabled worldDown freshState (ascii ''p1'') [])
       \<noteq> Inr (Some (Json placeP1))"
  by (simp add: fetchPlaceDetails_def isPlacesApiEnabled_def envDisabled_def envGoogle_def
      loadPlaceDetailsDiskCache_def tierTruthy_def parsedTier_def diskEntry_def freshState_def
      ascii_def Let_def)

text \<open>
  Claim C3, amended. With the provider disabled, \<open>fetchPlaceDetails\<close> returns null and
  leaves the stores as they are; the disk entry is served by \<open>getCompanyPlaceData\<close>,
  which returns it unchanged for a company whose explicit place id (trimmed, not empty)
  has an entry in the disk tier.
\<close>

theorem disabled_provider_serves_disk_entry:
  assumes "\<not> isPlacesApiEnabled e"
    and "diskEntry (fst (loadPlaceDetailsDiskCache e st)) pid = Some d"
    and "truthyValue (Some d)" and "pid \<noteq> []"
    and "trim (orElse (orEmpty (placeId company)) (orEmpty (place_id company))) = pid"
  shows "fetchPlaceDetails e w st pid q = (Inr None, st)
       \<and> fst (getCompanyPlaceData e w1 w2 st company) = Inr (Some d)"
proof
  show "fetchPlaceDetails e w st pid q = (Inr None, st)"
    using assms(1) by (simp add: fetchPlaceDetails_def)
next
  obtain disk st1 where l: "loadPlaceDetailsDiskCache e st = (disk, st1)"
    by (cases "loadPlaceDetailsDiskCache e st")
  with assms(2) have "diskEntry disk pid = Some d" by simp
  then have d: "readMember e disk pid = Inr (Some d)"
    by (cases disk) (simp_all add: diskEntry_def readMember_def)
  show "fst (getCompanyPlaceData e w1 w2 st company) = Inr (Some d)"
    using assms(1,3,4) d
    by (simp add: getCompanyPlaceData_def Let_def assms(5) l)
qed

theorem disabled_provider_serves_disk_entry_witness:
  "\<not> isPlacesApiEnabled envDisabled
   \<and> diskEntry (fst (loadPlaceDetailsDiskCache envDisabled freshState)) (ascii ''p1'')
       = Some (Json placeP1)
   \<and> truthyValue (Some (Json placeP1))
   \<and> fetchPlaceDetails envDisabled worldDown freshState (ascii ''p1'') [] = (Inr None, freshState)
   \<and> fst (getCompanyPlaceData envDisabled worldDown worldDown freshState companyP1)
       = Inr (Some (Json placeP1))"
  using disabled_provider_serves_disk_entry
    [of envDisabled freshState "ascii ''p1''" "Json placeP1" companyP1 worldDown "[]" worldDown worldDown]
  by (simp add: isPlacesApiEnabled_def envDisabled_def envGoogle_def
      loadPlaceDetailsDiskCache_def tierTruthy_def parsedTier_def diskEntry_def truthyValue_def
      freshState_def ascii_def placeP1_def companyP1_def
      orEmpty_def orElse_def trim_def isWhiteSpace_def Let_def)

section \<open>The submissions API: accepting, rejecting, listing\<close>

lemma trim_Nil [simp]: "trim [] = []" by (simp add: trim_def)

lemma trimOrEmpty_str: "trimOrEmpty (Some (JStr s)) = Inr (trim s)"
  by (simp add: trimOrEmpty_def)

lemma trimOrEmpty_None: "trimOrEmpty None = Inr []"
  by (simp add: trimOrEmpty_def)

text \<open>
  Claim C6 fails as stated: a contact that is not empty but holds white space only
  (here one space), with no name and no email, is answered with status 400 and no row
  is inserted, because the handler trims the contact before it tests it.
\<close>

theorem submit_whitespace_contact_rejected:
  "body_contact \<lparr>body_name = None, body_email = None, body_city = Some (JStr (ascii ''CDMX'')),
      body_type = None, body_details = None, body_contact = Some (JStr [0x20])\<rparr> = Some (JStr [0x20])
   \<and> [0x20::nat] \<noteq> []
   \<and> submit \<lparr>submissions = [], lastID = 0\<rparr> False 0
      \<lparr>body_name = None, body_email = None, body_city = Some (JStr (ascii ''CDMX'')),
       body_type = None, body_details = None, body_contact = Some (JStr [0x20])\<rparr>
     = (Inr \<lparr>res_status = 400, res_ok = False, res_message = Some missingContact,
             res_id = None, res_data = None\<rparr>, \<lparr>submissions = [], lastID = 0\<rparr>)"
  by (simp add: submit_def trimOrEmpty_def trim_def isWhiteSpace_def orElse_def)

text \<open>
  Claim C6, amended. A body with no name, no email and a string contact that is not empty
  after trimming is accepted when the insert succeeds: the response is ok with the new
  row id, and the row stored has the visitor label as name and the trimmed contact as
  email and contact. A body whose email and contact are each missing or a string that is
  empty after trimming (the name being missing or a string) gets status 400 with the
  message \<open>missingContact\<close>, and the table is unchanged.
\<close>

theorem submit_contact_only:
  "(body_name b = None \<and> body_email b = None \<and> body_contact b = Some (JStr c) \<and> trim c \<noteq> []
      \<longrightarrow> submit db False t b =
          (Inr \<lparr>res_status = 200, res_ok = True, res_message = None,
                res_id = Some (Suc (lastID db)), res_data = None\<rparr>,
           db\<lparr>submissions := submissions db @
                 [\<lparr>sub_id = Suc (lastID db), sub_name = visitorLabel, sub_email = trim c,
                   sub_city = body_city b, sub_type = body_type b, sub_details = body_details b,
                   sub_contact = trim c, created_at = t\<rparr>],
              lastID := Suc (lastID db)\<rparr>))
   \<and> ((body_name b = None \<or> (\<exists>n. body_name b = Some (JStr n)))
      \<and> (body_email b = None \<or> (\<exists>m. body_email b = Some (JStr m) \<and> trim m = []))
      \<and> (body_contact b = None \<or> (\<exists>k. body_contact b = Some (JStr k) \<and> trim k = []))
      \<longrightarrow> submit db insertFails t b =
          (Inr \<lparr>res_status = 400, res_ok = False, res_message = Some missingContact,
                res_id = None, res_data = None\<rparr>, db))"
  by (auto simp: submit_def trimOrEmpty_str trimOrEmpty_None orElse_def Let_def)

theorem submit_contact_only_witness:
  "trim (ascii ''+52123'') \<noteq> []
   \<and> submit \<lparr>submissions = [], lastID = 0\<rparr> False 0
      \<lparr>body_name = None, body_email = None, body_city = Some (JStr (ascii ''CDMX'')),
       body_type = None, body_details = None, body_contact = Some (JStr (ascii ''+52123''))\<rparr>
     = (Inr \<lparr>res_status = 200, res_ok = True, res_message = None, res_id = Some 1,
             res_data = None\<rparr>,
        \<lparr>submissions =
           [\<lparr>sub_id = 1, sub_name = visitorLabel, sub_email = ascii ''+52123'',
             sub_city = Some (JStr (ascii ''CDMX'')), sub_type = None, sub_details = None,
             sub_contact = ascii ''+52123'', created_at = 0\<rparr>],
         lastID = 1\<rparr>)
   \<and> submit \<lparr>submissions = [], lastID = 0\<rparr> False 0
      \<lparr>body_name = None, body_email = None, body_city = Some (JStr (ascii ''CDMX'')),
       body_type = None, body_details = None, body_contact = None\<rparr>
     = (Inr \<lparr>res_status = 400, res_ok = False, res_message = Some missingContact,
             res_id = None, res_data = None\<rparr>, \<lparr>submissions = [], lastID = 0\<rparr>)"
  using submit_contact_only
    [of "\<lparr>body_name = None, body_email = None, body_city = Some (JStr (ascii ''CDMX'')),
         body_type = None, body_details = None, body_contact = Some (JStr (ascii ''+52123''))\<rparr>"
        "ascii ''+52123''" "\<lparr>submissions = [], lastID = 0\<rparr>" 0 False]
    submit_contact_only
    [of "\<lparr>body_name = None, body_email = None, body_city = Some (JStr (ascii ''CDMX'')),
         body_type = None, body_details = None, body_contact = None\<rparr>"
        "[]" "\<lparr>submissions = [], lastID = 0\<rparr>" 0 False]
  by (simp add: trim_def ascii_def isWhiteSpace_def)

lemma selectSubmissions_negative: "n < 0 \<Longrightarrow> length (selectSubmissions rows n) = length rows"
  by (simp add: selectSubmissions_def)

lemma requestedLimit_minus_one: "requestedLimit (Some (ascii ''-1'')) = -1"
  by (simp add: requestedLimit_def parseInt10_def ascii_def isWhiteSpace_def isDigit_def digitsValue_def)

text \<open>
  Claim C8 fails on the code for a negative limit: \<^verbatim>\<open>GET /api/submissions?limit=-1\<close> on
  a table of 501 rows returns all 501 rows. \<^verbatim>\<open>Math.min\<close> caps the limit from above
  only, and SQLite reads a negative \<^verbatim>\<open>LIMIT\<close> as no limit.
\<close>

theorem submissions_negative_limit_unbounded:
  "res_data (getSubmissions \<lparr>submissions = sampleRows 501, lastID = 501\<rparr> False (Some (ascii ''-1'')))
     = Some (selectSubmissions (sampleRows 501) (-1))
   \<and> length (selectSubmissions (sampleRows 501) (-1)) = 501"
  by (simp add: getSubmissions_def requestedLimit_minus_one selectSubmissions_negative sampleRows_def)

text \<open>For every limit that is not negative the cap holds, and every answer is newest first.\<close>

lemma selectSubmissions_bounded:
  "0 \<le> requestedLimit q \<Longrightarrow> length (selectSubmissions rows (requestedLimit q)) \<le> 500"
  by (auto simp: selectSubmissions_def requestedLimit_def Let_def min_def split: option.splits if_splits)

lemma selectSubmissions_newest_first:
  "sorted (map (\<lambda>r. - created_at r) (selectSubmissions rows n))"
  by (simp add: selectSubmissions_def Let_def sorted_wrt_take flip: take_map)

section \<open>Escaping in the directory cards\<close>














end
